theory Spec2Isabelle
  imports Complex_Main "HOL-Library.Signed_Division"
begin

section \<open>The scanfrog game engine\<close>

text \<open>
  A shallow embedding of the game simulation of scanfrog (package \<^verbatim>\<open>internal/game\<close>):
  the data model of \<^verbatim>\<open>model.go\<close> and the operations of \<^verbatim>\<open>update.go\<close>
  (\<^verbatim>\<open>handleKeyPress\<close>, \<^verbatim>\<open>startGame\<close>, \<^verbatim>\<open>getObstacleProperties\<close>,
  \<^verbatim>\<open>generateObstacles\<close>, \<^verbatim>\<open>updateGame\<close>, \<^verbatim>\<open>checkCollision\<close>,
  \<^verbatim>\<open>initializeDecorativeItems\<close>, \<^verbatim>\<open>restartGame\<close>, \<^verbatim>\<open>Update\<close>).
  The operations are taken in the revision that goes with \<^verbatim>\<open>model.go\<close>: a game area of the
  fixed height \<^verbatim>\<open>gameAreaHeight\<close>, all vulnerabilities at once, \<^verbatim>\<open>restartGame\<close> and the
  decorative items. In the sources this text follows the interactive tests in
  \<^verbatim>\<open>internal/game/interactive_test.go\<close>; the earlier revisions with waves are not modelled.

  Conventions of the embedding.
  \<^item> Go's \<^verbatim>\<open>int\<close> is HOL's \<open>int\<close>; the arithmetic of the engine on viewport sizes, list
    lengths and positions stays far inside the 64-bit range for terminals and lists that
    exist. The exception is \<^verbatim>\<open>checkCollision\<close>, a function of an arbitrary obstacle, whose sum
    is modelled with its 64-bit wrap-around (\<open>int64\<close>). Loop indices and lengths, which are
    never negative, are \<open>nat\<close>, so that Go's \<^verbatim>\<open>/\<close> and \<^verbatim>\<open>%\<close> on them are \<open>div\<close> and
    \<open>mod\<close>; on operands that may be negative Go's truncating \<^verbatim>\<open>/\<close> and \<^verbatim>\<open>%\<close> are
    \<open>sdiv\<close> and \<open>smod\<close>.
  \<^item> A finite \<^verbatim>\<open>float64\<close> is modelled by the real number it denotes, and \<^verbatim>\<open>+\<close>,
    \<^verbatim>\<open>*\<close> by the exact operations: rounding is not modelled. In obstacle generation every
    position is a small multiple of one half, where \<^verbatim>\<open>float64\<close> arithmetic is exact. In the
    physics step the products and sums of the code round, so the float position of the model
    and of the code can differ in the last digits; the statements below about the step
    (its bounds, what it leaves unchanged, the edge values of a teleport) follow from the
    conversion to \<^verbatim>\<open>int\<close> and the tests of the wrap and hold whatever the sum is, and
    their concrete inputs are chosen so that every operation is exact in \<^verbatim>\<open>float64\<close>.
    Nothing is stated about accumulated rounding error. The one place where the engine can
    produce the value NaN, \<^verbatim>\<open>math.Mod\<close> with a zero divisor, is modelled: \<open>None\<close> of type
    \<open>float64 option\<close> is NaN.
  \<^item> \<^verbatim>\<open>time.Now()\<close> is the parameter \<open>now\<close> of each handler, a count of nanoseconds; the
    readings taken inside one call of a handler are identified.
  \<^item> What the platform or an external library decides is collected in the record
    \<open>platform\<close>: the result of converting NaN to \<^verbatim>\<open>int\<close>, which Go leaves to the
    implementation, the formatting verb \<^verbatim>\<open>%.1f\<close>, \<^verbatim>\<open>termlink.Link\<close> and \<^verbatim>\<open>math.Sin\<close>.
\<close>

subsection \<open>Data model (model.go, grype.Vulnerability)\<close>

type_synonym float64 = real

type_synonym time = int

datatype gameState = stateLoading | statePlaying | stateGameOver | stateVictory

definition gameAreaHeight :: int where
  "gameAreaHeight = 20"

definition minTerminalHeight :: int where
  "minTerminalHeight = 22"

record vulnerability =
  ID :: string
  Severity :: string
  CVSS :: float64
  Package :: string
  Description :: string

datatype vulnSource = ScannerSource string | FileSource string

record position =
  pos_x :: int
  pos_y :: int

record obstacle =
  pos :: position
  floatX :: float64
  width :: int
  speed :: float64
  cveID :: string
  severity :: float64
  severityLabel :: string

record decorativeItem =
  item_x :: int
  item_y :: int
  symbol :: string
  item_floatX :: float64
  item_floatY :: float64
  item_speed :: float64

record lane =
  lane_y :: int
  direction :: int
  lane_speed :: float64

record Model =
  vulnSource :: vulnSource
  state :: gameState
  loadingMsg :: string
  frog :: position
  obstacles :: "obstacle list"
  lanes :: "lane list"
  gameStartTime :: time
  totalVulns :: int
  containerImage :: string
  collisionCVE :: string
  collisionMsg :: string
  collisionObs :: "obstacle option"
  width :: int
  height :: int
  lastUpdate :: time
  hasMoved :: bool
  firstMoveTime :: time
  isZeroVulnGame :: bool
  decorativeItems :: "decorativeItem list"
  loadedVulns :: "vulnerability list"

text \<open>
  The commands a handler hands back to the event loop, and the messages the loop delivers.
  \<open>LoadVulnerabilities\<close> is the only command that calls the provider's
  \<^verbatim>\<open>GetVulnerabilities\<close>.
\<close>

datatype cmd = NoCmd | Quit | Tick | LoadVulnerabilities | EnterAltScreen | Batch "cmd list"

datatype msg =
    KeyMsg string
  | WindowSizeMsg int int
  | vulnerabilitiesLoadedMsg "vulnerability list"
  | vulnerabilityErrorMsg string
  | tickMsg time
  | otherMsg

record platform =
  nanInt :: int
  sprintf_1f :: "float64 \<Rightarrow> string"
  termlink_Link :: "string \<Rightarrow> string \<Rightarrow> string"
  math_Sin :: "float64 \<Rightarrow> float64"

subsection \<open>Conversions and library functions\<close>

text \<open>Go's conversion \<^verbatim>\<open>int(f)\<close> of a finite float: the fraction is discarded.\<close>

definition trunc :: "float64 \<Rightarrow> int" where
  "trunc r = (if 0 \<le> r then \<lfloor>r\<rfloor> else \<lceil>r\<rceil>)"

text \<open>\<^verbatim>\<open>int(f)\<close> where \<open>f\<close> may be NaN: the result for NaN is the platform's.\<close>

definition toInt :: "platform \<Rightarrow> float64 option \<Rightarrow> int" where
  "toInt e f = (case f of None \<Rightarrow> nanInt e | Some r \<Rightarrow> trunc r)"

text \<open>
  The value of a 64-bit two's complement result: what Go's \<^verbatim>\<open>int\<close> holds after an
  operation whose exact result is \<open>k\<close>.
\<close>

definition int64 :: "int \<Rightarrow> int" where
  "int64 k = (k + 9223372036854775808) mod 18446744073709551616 - 9223372036854775808"

text \<open>
  \<^verbatim>\<open>math.Mod(x, y)\<close>: NaN when \<open>y\<close> is zero, otherwise the remainder of the truncated
  division, which has the sign of \<open>x\<close> and is computed without rounding.
\<close>

definition math_Mod :: "float64 \<Rightarrow> float64 \<Rightarrow> float64 option" where
  "math_Mod a b = (if b = 0 then None else Some (a - b * of_int (trunc (a / b))))"

text \<open>\<^verbatim>\<open>Duration.Seconds()\<close> of a duration in nanoseconds.\<close>

definition Seconds :: "int \<Rightarrow> float64" where
  "Seconds d = of_int d / 1000000000"

text \<open>\<^verbatim>\<open>Time.UnixMilli()\<close>.\<close>

definition UnixMilli :: "time \<Rightarrow> int" where
  "UnixMilli t = t div 1000000"

text \<open>\<^verbatim>\<open>strings.HasPrefix\<close>.\<close>

definition HasPrefix :: "string \<Rightarrow> string \<Rightarrow> bool" where
  "HasPrefix s p = (take (length p) s = p)"

subsection \<open>Severity classes (getObstacleProperties)\<close>

datatype obstacleType = obstacleTypeCar | obstacleTypeTruck | obstacleTypeBoss

definition getObstacleProperties :: "vulnerability \<Rightarrow> int \<times> float64 \<times> obstacleType" where
  "getObstacleProperties vuln =
     (if CVSS vuln > 0 then
        (if CVSS vuln \<ge> 9.0 then (2, 1.5, obstacleTypeBoss)
         else if CVSS vuln \<ge> 7.0 then (2, 1.2, obstacleTypeTruck)
         else if CVSS vuln \<ge> 4.0 then (1, 1.3, obstacleTypeCar)
         else (1, 1.0, obstacleTypeCar))
      else if Severity vuln = ''Critical'' then (2, 1.5, obstacleTypeBoss)
      else if Severity vuln = ''High'' then (2, 1.2, obstacleTypeTruck)
      else if Severity vuln = ''Medium'' then (1, 1.3, obstacleTypeCar)
      else if Severity vuln = ''Low'' then (1, 1.0, obstacleTypeCar)
      else if Severity vuln = ''Negligible'' then (1, 0.8, obstacleTypeCar)
      else (1, 1.0, obstacleTypeCar))"

subsection \<open>Obstacle generation (generateObstacles)\<close>

text \<open>The spacing chosen by the \<^verbatim>\<open>switch\<close> on the number of vulnerabilities.\<close>

definition spacing :: "nat \<Rightarrow> float64" where
  "spacing n = (if n > 200 then 8.0 else if n > 100 then 12.0 else 20.0)"

text \<open>\<^verbatim>\<open>loopLength\<close> for \<open>n\<close> vulnerabilities on \<open>numLanes\<close> lanes.\<close>

definition loopLength :: "nat \<Rightarrow> nat \<Rightarrow> float64" where
  "loopLength n numLanes = real (n div numLanes) * spacing n"

text \<open>
  The position \<^verbatim>\<open>x\<close> of the obstacle with index \<open>i\<close> after the wrap into the loop
  (the body of the loop up to the test \<^verbatim>\<open>x < 0\<close>, which is false for NaN).
\<close>

definition wrappedX :: "nat \<Rightarrow> nat \<Rightarrow> nat \<Rightarrow> float64 option" where
  "wrappedX n numLanes i =
     (let laneIdx = i mod numLanes;
          obstacleIndexInLane = i div numLanes;
          baseX = real obstacleIndexInLane * spacing n;
          laneOffset = real laneIdx * 2.0;
          variation = of_int (int (i mod 7) - 3) * 0.5;
          x0 = baseX + laneOffset + variation
      in case math_Mod x0 (loopLength n numLanes) of
           None \<Rightarrow> None
         | Some x1 \<Rightarrow> if x1 < 0 then Some (x1 + loopLength n numLanes) else Some x1)"

text \<open>One iteration of the loop: the obstacle appended for \<open>vuln\<close> at index \<open>i\<close>.\<close>

definition newObstacle :: "platform \<Rightarrow> Model \<Rightarrow> nat \<Rightarrow> nat \<Rightarrow> vulnerability \<Rightarrow> obstacle" where
  "newObstacle e m n i vuln =
     (let numLanes = length (lanes m);
          ln = lanes m ! (i mod numLanes);
          (w, speedMultiplier, obsType) = getObstacleProperties vuln;
          x = wrappedX n numLanes i;
          startX = (if direction ln > 0
                    then toInt e x - trunc (loopLength n numLanes) sdiv 2
                    else toInt e x + Model.width m - trunc (loopLength n numLanes) sdiv 2)
      in \<lparr>pos = \<lparr>pos_x = startX, pos_y = lane_y ln\<rparr>,
          floatX = of_int startX,
          obstacle.width = w,
          speed = lane_speed ln * speedMultiplier * of_int (direction ln),
          cveID = ID vuln,
          severity = CVSS vuln,
          severityLabel = Severity vuln\<rparr>)"

definition generateObstacles :: "platform \<Rightarrow> Model \<Rightarrow> vulnerability list \<Rightarrow> Model" where
  "generateObstacles e m vulns =
     (if length (lanes m) = 0 then m\<lparr>obstacles := []\<rparr>
      else m\<lparr>obstacles :=
             map (\<lambda>(i, vuln). newObstacle e m (length vulns) i vuln) (enumerate 0 vulns)\<rparr>)"

subsection \<open>Starting a game (startGame, initializeDecorativeItems)\<close>

definition lanePositions :: "int list" where
  "lanePositions = [18, 16, 14, 12, 10, 8, 6, 4]"

text \<open>The lanes built by the loop over \<^verbatim>\<open>lanePositions\<close>.\<close>

definition initLanes :: "lane list" where
  "initLanes =
     map (\<lambda>(i, y). \<lparr>lane_y = y,
                      direction = 1 - 2 * int (i mod 2),
                      lane_speed = 0.5 + real (i mod 3) * 0.3\<rparr>)
         (filter (\<lambda>(i, y). y < gameAreaHeight) (enumerate 0 lanePositions))"

text \<open>
  The palette of decorative symbols: a green heart, sparkles and a star, as the bytes of
  their UTF-8 encodings.
\<close>

definition heart :: string where
  "heart = [CHR 0xF0, CHR 0x9F, CHR 0x92, CHR 0x9A]"

definition sparkles :: string where
  "sparkles = [CHR 0xE2, CHR 0x9C, CHR 0xA8]"

definition star :: string where
  "star = [CHR 0xE2, CHR 0xAD, CHR 0x90]"

definition symbols :: "string list" where
  "symbols = [heart, sparkles, heart, star, heart, sparkles]"

text \<open>One iteration of the loop of \<^verbatim>\<open>initializeDecorativeItems\<close>.\<close>

definition newDecorativeItem :: "Model \<Rightarrow> nat \<Rightarrow> decorativeItem" where
  "newDecorativeItem m i =
     (let x = (int i * Model.width m) sdiv 12 + int (i mod 3) - 1;
          y0 = 1 + int i smod (gameAreaHeight - 2);
          y = (if y0 = pos_y (frog m) \<and> x \<ge> pos_x (frog m) - 2 \<and> x \<le> pos_x (frog m) + 2
               then (let y1 = (y0 + 3) smod (gameAreaHeight - 1) in if y1 = 0 then 1 else y1)
               else y0)
      in \<lparr>item_x = x, item_y = y,
          symbol = symbols ! (i mod length symbols),
          item_floatX = of_int x,
          item_floatY = of_int y,
          item_speed = 0.3 + real (i mod 3) * 0.2\<rparr>)"

definition initializeDecorativeItems :: "Model \<Rightarrow> Model" where
  "initializeDecorativeItems m = m\<lparr>decorativeItems := map (newDecorativeItem m) [0..<12]\<rparr>"

definition startGame :: "platform \<Rightarrow> time \<Rightarrow> Model \<Rightarrow> vulnerability list \<Rightarrow> Model" where
  "startGame e now m vulns =
     (let m1 = m\<lparr>state := statePlaying,
                 gameStartTime := now,
                 totalVulns := int (length vulns),
                 frog := \<lparr>pos_x = Model.width m sdiv 2, pos_y = gameAreaHeight - 1\<rparr>,
                 lanes := initLanes\<rparr>;
          m2 = generateObstacles e m1 vulns;
          m3 = (if length vulns = 0
                then initializeDecorativeItems (m2\<lparr>isZeroVulnGame := True\<rparr>)
                else m2)
      in m3\<lparr>lastUpdate := now\<rparr>)"

subsection \<open>Collision (checkCollision) and the collision message\<close>

text \<open>The sum \<^verbatim>\<open>obs.pos.x+obs.width\<close> is Go's: it wraps at 64 bits.\<close>

definition checkCollision :: "position \<Rightarrow> obstacle \<Rightarrow> bool" where
  "checkCollision frg obs =
     (if pos_y frg \<noteq> pos_y (pos obs) then False
      else pos_x frg \<ge> pos_x (pos obs)
           \<and> pos_x frg < int64 (pos_x (pos obs) + obstacle.width obs))"

definition getVulnerabilityURL :: "string \<Rightarrow> string" where
  "getVulnerabilityURL vulnID =
     (if HasPrefix vulnID ''CVE-'' then ''https://nvd.nist.gov/vuln/detail/'' @ vulnID
      else if HasPrefix vulnID ''GHSA-'' then ''https://github.com/advisories/'' @ vulnID
      else [])"

record CollisionMessageParts =
  Prefix :: string
  VulnID :: string
  Suffix :: string

definition FormatCollisionMessageParts :: "platform \<Rightarrow> obstacle \<Rightarrow> CollisionMessageParts" where
  "FormatCollisionMessageParts e obs =
     (let sev = (if severityLabel obs = [] then
                   (if severity obs \<ge> 9.0 then ''Critical''
                    else if severity obs \<ge> 7.0 then ''High''
                    else if severity obs \<ge> 4.0 then ''Medium''
                    else ''Low'')
                 else severityLabel obs);
          url = getVulnerabilityURL (cveID obs)
      in \<lparr>Prefix = ''You were hit by '',
          VulnID = (if url \<noteq> [] then termlink_Link e (cveID obs) url else cveID obs),
          Suffix = (if severity obs > 0
                    then '' ('' @ sev @ '', CVSS '' @ sprintf_1f e (severity obs) @ ''). Game over!''
                    else '' ('' @ sev @ ''). Game over!'')\<rparr>)"

definition formatCollisionMessage :: "platform \<Rightarrow> obstacle \<Rightarrow> string" where
  "formatCollisionMessage e obs =
     (let parts = FormatCollisionMessageParts e obs in Prefix parts @ VulnID parts @ Suffix parts)"

subsection \<open>The physics step (updateGame)\<close>

text \<open>
  The body of the loop over the obstacles: \<open>vw\<close> is the viewport width \<^verbatim>\<open>m.width\<close>,
  \<open>delta\<close> the seconds since the last update.
\<close>

definition moveObstacle :: "int \<Rightarrow> float64 \<Rightarrow> obstacle \<Rightarrow> obstacle" where
  "moveObstacle vw delta ob =
     (let movement = speed ob * delta * 30.0;
          fx = floatX ob + movement;
          ob1 = ob\<lparr>floatX := fx, pos := (pos ob)\<lparr>pos_x := trunc fx\<rparr>\<rparr>
      in if pos_x (pos ob1) < - obstacle.width ob1 - 5
         then ob1\<lparr>floatX := of_int (vw + 5), pos := (pos ob1)\<lparr>pos_x := vw + 5\<rparr>\<rparr>
         else if pos_x (pos ob1) > vw + 5
         then ob1\<lparr>floatX := of_int (- obstacle.width ob1 - 5),
                  pos := (pos ob1)\<lparr>pos_x := - obstacle.width ob1 - 5\<rparr>\<rparr>
         else ob1)"

text \<open>The body of the loop over the decorative items; \<open>i\<close> is the index of the item.\<close>

definition moveDecorativeItem ::
  "platform \<Rightarrow> int \<Rightarrow> time \<Rightarrow> float64 \<Rightarrow> nat \<Rightarrow> decorativeItem \<Rightarrow> decorativeItem" where
  "moveDecorativeItem e vw now delta i it =
     (let fx = item_floatX it + item_speed it * delta * 10.0;
          bobAmount = math_Sin e (of_int (UnixMilli now) / 1000.0 + real i) * 0.5;
          fy = item_floatY it + bobAmount * delta;
          it1 = it\<lparr>item_floatX := fx, item_floatY := fy, item_x := trunc fx, item_y := trunc fy\<rparr>
      in if item_x it1 > vw + 2 then it1\<lparr>item_floatX := - 2.0, item_x := - 2\<rparr> else it1)"

definition updateGame :: "platform \<Rightarrow> time \<Rightarrow> Model \<Rightarrow> Model" where
  "updateGame e now m =
     (let delta = Seconds (now - lastUpdate m);
          m1 = m\<lparr>lastUpdate := now,
                 obstacles := map (moveObstacle (Model.width m) delta) (obstacles m)\<rparr>;
          m2 = (if isZeroVulnGame m1
                then m1\<lparr>decorativeItems :=
                          map (\<lambda>(i, it). moveDecorativeItem e (Model.width m1) now delta i it)
                              (enumerate 0 (decorativeItems m1))\<rparr>
                else m1)
      in case find (checkCollision (frog m2)) (obstacles m2) of
           Some obs \<Rightarrow> m2\<lparr>state := stateGameOver,
                            collisionCVE := cveID obs,
                            collisionMsg := formatCollisionMessage e obs,
                            collisionObs := Some obs\<rparr>
         | None \<Rightarrow> m2)"

subsection \<open>Restart and key handling (restartGame, handleKeyPress)\<close>

definition restartGame :: "platform \<Rightarrow> time \<Rightarrow> Model \<Rightarrow> Model \<times> cmd" where
  "restartGame e now m =
     (let m1 = m\<lparr>state := statePlaying,
                 hasMoved := False,
                 collisionCVE := [],
                 collisionMsg := [],
                 collisionObs := None,
                 decorativeItems := [],
                 isZeroVulnGame := False,
                 lastUpdate := now\<rparr>
      in (startGame e now m1 (loadedVulns m1), Tick))"

text \<open>The block \<^verbatim>\<open>if !m.hasMoved { ... }\<close> that follows every successful move.\<close>

definition noteFirstMove :: "time \<Rightarrow> Model \<Rightarrow> Model" where
  "noteFirstMove now m = (if \<not> hasMoved m then m\<lparr>hasMoved := True, firstMoveTime := now\<rparr> else m)"

text \<open>The \<^verbatim>\<open>switch\<close> over the movement keys.\<close>

definition moveFrog :: "time \<Rightarrow> Model \<Rightarrow> string \<Rightarrow> Model" where
  "moveFrog now m key =
     (if key = ''up'' \<or> key = ''w'' then
        (if pos_y (frog m) > 0
         then noteFirstMove now (m\<lparr>frog := (frog m)\<lparr>pos_y := pos_y (frog m) - 1\<rparr>\<rparr>) else m)
      else if key = ''down'' \<or> key = ''s'' then
        (if pos_y (frog m) < gameAreaHeight - 1
         then noteFirstMove now (m\<lparr>frog := (frog m)\<lparr>pos_y := pos_y (frog m) + 1\<rparr>\<rparr>) else m)
      else if key = ''left'' \<or> key = ''a'' then
        (if pos_x (frog m) > 0
         then noteFirstMove now (m\<lparr>frog := (frog m)\<lparr>pos_x := pos_x (frog m) - 1\<rparr>\<rparr>) else m)
      else if key = ''right'' \<or> key = ''d'' then
        (if pos_x (frog m) < Model.width m - 1
         then noteFirstMove now (m\<lparr>frog := (frog m)\<lparr>pos_x := pos_x (frog m) + 1\<rparr>\<rparr>) else m)
      else m)"

definition handleKeyPress :: "platform \<Rightarrow> time \<Rightarrow> Model \<Rightarrow> string \<Rightarrow> Model \<times> cmd" where
  "handleKeyPress e now m key =
     (if state m \<noteq> statePlaying then
        (if key = ''q'' \<or> key = ''esc'' \<or> key = ''ctrl+c'' then (m, Quit)
         else if key = ''enter'' \<or> key = '' '' then
           (if state m = stateGameOver \<or> state m = stateVictory then restartGame e now m
            else (m, NoCmd))
         else (m, NoCmd))
      else if key = ''q'' \<or> key = ''esc'' \<or> key = ''ctrl+c'' then (m, Quit)
      else
        (let m1 = moveFrog now m key
         in if pos_y (frog m1) = 0 then (m1\<lparr>state := stateVictory\<rparr>, NoCmd) else (m1, NoCmd)))"

subsection \<open>The event loop's entry points (NewModel, Init, Update)\<close>

definition NewModel :: "time \<Rightarrow> vulnSource \<Rightarrow> Model" where
  "NewModel now src =
     \<lparr>vulnSource = src,
      state = stateLoading,
      loadingMsg = (case src of ScannerSource img \<Rightarrow> ''Building obstacle course from '' @ img @ ''...''
                    | FileSource p \<Rightarrow> ''Building obstacle course...''),
      frog = \<lparr>pos_x = 0, pos_y = 0\<rparr>,
      obstacles = [],
      lanes = [],
      gameStartTime = 0,
      totalVulns = 0,
      containerImage = (case src of ScannerSource img \<Rightarrow> img | FileSource p \<Rightarrow> []),
      collisionCVE = [],
      collisionMsg = [],
      collisionObs = None,
      Model.width = 80,
      height = 24,
      lastUpdate = now,
      hasMoved = False,
      firstMoveTime = 0,
      isZeroVulnGame = False,
      decorativeItems = [],
      loadedVulns = []\<rparr>"

definition Init :: "Model \<Rightarrow> cmd" where
  "Init m = Batch [LoadVulnerabilities, EnterAltScreen, Tick]"

text \<open>
  \<^verbatim>\<open>Update\<close>; the text of a load failure is the error's, carried by the message.
\<close>

fun Update :: "platform \<Rightarrow> time \<Rightarrow> Model \<Rightarrow> msg \<Rightarrow> Model \<times> cmd" where
  "Update e now m (KeyMsg key) = handleKeyPress e now m key"
| "Update e now m (WindowSizeMsg w h) =
     (if w > 0 \<and> h > 0 then (m\<lparr>Model.width := w, height := h\<rparr>, NoCmd) else (m, NoCmd))"
| "Update e now m (vulnerabilitiesLoadedMsg vulns) =
     (startGame e now (m\<lparr>loadedVulns := vulns\<rparr>) vulns, Tick)"
| "Update e now m (vulnerabilityErrorMsg err) =
     (m\<lparr>state := stateGameOver,
        collisionMsg := ''Failed to load vulnerabilities: '' @ err\<rparr>, Quit)"
| "Update e now m (tickMsg t) =
     (case state m of
        statePlaying \<Rightarrow> (updateGame e now m, Tick)
      | stateLoading \<Rightarrow> (m, Tick)
      | stateGameOver \<Rightarrow> (m, NoCmd)
      | stateVictory \<Rightarrow> (m, NoCmd))"
| "Update e now m otherMsg = (m, NoCmd)"

subsection \<open>The event loop\<close>

text \<open>
  The event loop delivers the messages one after the other to \<^verbatim>\<open>Update\<close>; each message
  comes with the reading of the clock at its delivery.
\<close>

fun run :: "platform \<Rightarrow> Model \<Rightarrow> (time \<times> msg) list \<Rightarrow> Model" where
  "run e m [] = m"
| "run e m ((now, x) # evs) = run e (fst (Update e now m x)) evs"

text \<open>Whether a command, when run, calls the provider's \<^verbatim>\<open>GetVulnerabilities\<close>.\<close>

fun callsProvider :: "cmd \<Rightarrow> bool" where
  "callsProvider LoadVulnerabilities = True"
| "callsProvider (Batch cs) = list_ex callsProvider cs"
| "callsProvider NoCmd = False"
| "callsProvider Quit = False"
| "callsProvider Tick = False"
| "callsProvider EnterAltScreen = False"

text \<open>Events that are a tick or a press of the key \<^verbatim>\<open>up\<close>, and the number of such presses.\<close>

definition isTick :: "msg \<Rightarrow> bool" where
  "isTick x = (case x of tickMsg t \<Rightarrow> True | _ \<Rightarrow> False)"

definition upOrTick :: "time \<times> msg \<Rightarrow> bool" where
  "upOrTick ev = (snd ev = KeyMsg ''up'' \<or> isTick (snd ev))"

definition ups :: "(time \<times> msg) list \<Rightarrow> nat" where
  "ups evs = length (filter (\<lambda>ev. snd ev = KeyMsg ''up'') evs)"

subsection \<open>Teleports of the physics step\<close>

text \<open>
  Whether the step of length \<open>delta\<close> teleports the obstacle: the disjunction of the two
  tests of the wrap in \<^verbatim>\<open>updateGame\<close>, on the position after the move.
\<close>

definition wraps :: "int \<Rightarrow> float64 \<Rightarrow> obstacle \<Rightarrow> bool" where
  "wraps vw delta ob =
     (trunc (floatX ob + speed ob * delta * 30.0) < - obstacle.width ob - 5
      \<or> trunc (floatX ob + speed ob * delta * 30.0) > vw + 5)"

subsection \<open>Concrete inputs\<close>

text \<open>
  A platform for evaluating the model on concrete inputs. The conversion of NaN to
  \<^verbatim>\<open>int\<close> gives the least 64-bit integer, as on amd64, and \<^verbatim>\<open>termlink.Link\<close> returns the
  text unchanged, as it does in a terminal without hyperlinks. The rendering of a score and
  the sine, which enter only the text of the collision message and the rows of the
  decorative items, are placeholders: no statement below reads them.
\<close>

definition amd64 :: platform where
  "amd64 = \<lparr>nanInt = - 9223372036854775808,
            sprintf_1f = (\<lambda>r. []),
            termlink_Link = (\<lambda>text url. text),
            math_Sin = (\<lambda>r. 0)\<rparr>"

text \<open>The vulnerabilities and the model of \<^verbatim>\<open>TestObstacleGeneration\<close> (model_test.go).\<close>

definition testVulns :: "vulnerability list" where
  "testVulns =
     [\<lparr>ID = ''CVE-2021-1'', Severity = ''Critical'', CVSS = 9.5, Package = [], Description = []\<rparr>,
      \<lparr>ID = ''CVE-2021-2'', Severity = ''High'', CVSS = 7.5, Package = [], Description = []\<rparr>,
      \<lparr>ID = ''CVE-2021-3'', Severity = ''Medium'', CVSS = 0, Package = [], Description = []\<rparr>]"

definition testModel :: Model where
  "testModel = (NewModel 0 (FileSource []))
     \<lparr>lanes := [\<lparr>lane_y = 10, direction = 1, lane_speed = 1.0\<rparr>,
                \<lparr>lane_y = 11, direction = - 1, lane_speed = 1.2\<rparr>]\<rparr>"

text \<open>A vulnerability record with the score \<open>s\<close> and the severity label \<open>l\<close>.\<close>

definition vulnOf :: "float64 \<Rightarrow> string \<Rightarrow> vulnerability" where
  "vulnOf s l = \<lparr>ID = ''CVE-2021-1'', Severity = l, CVSS = s, Package = [], Description = []\<rparr>"

text \<open>
  A session in a terminal of 80 columns and 10 rows: the size arrives, an empty list of
  vulnerabilities is loaded, and the player presses \<^verbatim>\<open>up\<close> twelve times.
\<close>

definition smallTerminalRun :: "(time \<times> msg) list" where
  "smallTerminalRun =
     (1, WindowSizeMsg 80 10) # (2, vulnerabilitiesLoadedMsg []) # replicate 12 (3, KeyMsg ''up'')"

text \<open>
  A fresh game at the default size of 80 by 24 with 80 vulnerabilities of severity Low and
  no score.
\<close>

definition freshGame :: Model where
  "freshGame = startGame amd64 0 (NewModel 0 (FileSource [])) (replicate 80 (vulnOf 0 ''Low''))"

text \<open>The wide obstacle of \<^verbatim>\<open>TestCollisionDetection\<close> (model_test.go).\<close>

definition wideObstacle :: obstacle where
  "wideObstacle = \<lparr>pos = \<lparr>pos_x = 10, pos_y = 10\<rparr>, floatX = 0, obstacle.width = 2, speed = 0,
                   cveID = [], severity = 0, severityLabel = []\<rparr>"

section \<open>Properties\<close>

subsection \<open>Auxiliary facts about obstacle generation\<close>

lemma length_generateObstacles:
  "length (obstacles (generateObstacles e m vulns)) = (if lanes m = [] then 0 else length vulns)"
  by (simp add: generateObstacles_def)

lemma nth_generateObstacles:
  "lanes m \<noteq> [] \<Longrightarrow> i < length vulns \<Longrightarrow>
   obstacles (generateObstacles e m vulns) ! i = newObstacle e m (length vulns) i (vulns ! i)"
  by (simp add: generateObstacles_def nth_enumerate_eq)

lemma newObstacle_source:
  "cveID (newObstacle e m n i v) = ID v"
  "severity (newObstacle e m n i v) = CVSS v"
  "severityLabel (newObstacle e m n i v) = Severity v"
  "pos_y (pos (newObstacle e m n i v)) = lane_y (lanes m ! (i mod length (lanes m)))"
  by (simp_all add: newObstacle_def Let_def split: prod.splits)

text \<open>An obstacle depends on the model through its lanes and its viewport width only.\<close>

lemma newObstacle_cong:
  assumes "lanes m1 = lanes m2" and "Model.width m1 = Model.width m2"
  shows "newObstacle e m1 n i v = newObstacle e m2 n i v"
  unfolding newObstacle_def assms ..

lemma generateObstacles_cong:
  assumes "lanes m1 = lanes m2" and "Model.width m1 = Model.width m2"
  shows "obstacles (generateObstacles e m1 vulns) = obstacles (generateObstacles e m2 vulns)"
proof -
  have "newObstacle e m1 = newObstacle e m2"
    using newObstacle_cong [OF assms] by (intro ext)
  then show ?thesis
    by (simp add: generateObstacles_def assms(1))
qed

lemma obstacles_initializeDecorativeItems:
  "obstacles (initializeDecorativeItems m) = obstacles m"
  by (simp add: initializeDecorativeItems_def)

lemma obstacles_startGame:
  "obstacles (startGame e now m vulns)
   = obstacles (generateObstacles e (m\<lparr>lanes := initLanes\<rparr>) vulns)"
proof -
  let ?m1 = "m\<lparr>state := statePlaying, gameStartTime := now, totalVulns := int (length vulns),
               frog := \<lparr>pos_x = Model.width m sdiv 2, pos_y = gameAreaHeight - 1\<rparr>,
               lanes := initLanes\<rparr>"
  have "obstacles (startGame e now m vulns) = obstacles (generateObstacles e ?m1 vulns)"
    unfolding startGame_def Let_def
    by (cases "length vulns = 0") (simp_all add: obstacles_initializeDecorativeItems)
  also have "\<dots> = obstacles (generateObstacles e (m\<lparr>lanes := initLanes\<rparr>) vulns)"
    by (rule generateObstacles_cong) simp_all
  finally show ?thesis .
qed

lemma obstacles_restartGame:
  "obstacles (fst (restartGame e now m))
   = obstacles (generateObstacles e (m\<lparr>lanes := initLanes\<rparr>) (loadedVulns m))"
proof -
  have "obstacles (fst (restartGame e now m))
        = obstacles (generateObstacles e
            (m\<lparr>state := statePlaying, hasMoved := False, collisionCVE := [], collisionMsg := [],
               collisionObs := None, decorativeItems := [], isZeroVulnGame := False,
               lastUpdate := now, lanes := initLanes\<rparr>) (loadedVulns m))"
    unfolding restartGame_def Let_def fst_conv obstacles_startGame by simp
  also have "\<dots> = obstacles (generateObstacles e (m\<lparr>lanes := initLanes\<rparr>) (loadedVulns m))"
    by (rule generateObstacles_cong) simp_all
  finally show ?thesis .
qed

subsection \<open>One obstacle per vulnerability\<close>

text \<open>
  Claim C2. With at least one lane, \<^verbatim>\<open>generateObstacles\<close> creates exactly one obstacle
  for each vulnerability of the list: the obstacle at index \<open>i\<close> carries the id, the score
  and the severity label of the record at index \<open>i\<close> and runs on the row of lane
  \<open>i mod lane_count\<close>. The number of obstacles is the same for every viewport width.
\<close>

theorem generateObstacles_one_per_vulnerability:
  assumes "lanes m \<noteq> []"
  shows "length (obstacles (generateObstacles e m vulns)) = length vulns
       \<and> (\<forall>i < length vulns.
            cveID (obstacles (generateObstacles e m vulns) ! i) = ID (vulns ! i)
          \<and> severity (obstacles (generateObstacles e m vulns) ! i) = CVSS (vulns ! i)
          \<and> severityLabel (obstacles (generateObstacles e m vulns) ! i) = Severity (vulns ! i)
          \<and> pos_y (pos (obstacles (generateObstacles e m vulns) ! i))
              = lane_y (lanes m ! (i mod length (lanes m))))
       \<and> length (obstacles (generateObstacles e (m\<lparr>Model.width := vw\<rparr>) vulns))
           = length (obstacles (generateObstacles e m vulns))"
  using assms by (simp add: length_generateObstacles nth_generateObstacles newObstacle_source)

theorem generateObstacles_one_per_vulnerability_witness:
  "lanes testModel \<noteq> []
   \<and> length (obstacles (generateObstacles amd64 testModel testVulns)) = 3
   \<and> cveID (obstacles (generateObstacles amd64 testModel testVulns) ! 2) = ''CVE-2021-3''
   \<and> severity (obstacles (generateObstacles amd64 testModel testVulns) ! 2) = 0
   \<and> severityLabel (obstacles (generateObstacles amd64 testModel testVulns) ! 2) = ''Medium''
   \<and> pos_y (pos (obstacles (generateObstacles amd64 testModel testVulns) ! 2)) = 10"
proof -
  have h: "lanes testModel \<noteq> []"
    by (simp add: testModel_def)
  have n: "length testVulns = 3"
    and v: "testVulns ! 2 = \<lparr>ID = ''CVE-2021-3'', Severity = ''Medium'', CVSS = 0,
                              Package = [], Description = []\<rparr>"
    by (simp_all add: testVulns_def)
  have l: "lanes testModel ! (2 mod length (lanes testModel))
           = \<lparr>lane_y = 10, direction = 1, lane_speed = 1.0\<rparr>"
    by (simp add: testModel_def numeral_2_eq_2 [symmetric])
  show ?thesis
    using h generateObstacles_one_per_vulnerability [OF h, of amd64 testVulns 80]
    by (simp add: n v l)
qed

subsection \<open>Collision geometry\<close>

lemma int64_in_range:
  "- 9223372036854775808 \<le> k \<Longrightarrow> k < 9223372036854775808 \<Longrightarrow> int64 k = k"
  by (simp add: int64_def)

text \<open>
  Claim C3. \<^verbatim>\<open>checkCollision\<close> holds exactly when the frog is on the obstacle's row and its
  column \<open>x\<close> satisfies \<open>obs.x \<le> x < obs.x + width\<close>, read on the obstacle's integer
  position, where the sum is the one the code computes; a frog on another row never
  collides. For every obstacle whose sum \<open>obs.x + width\<close> is a 64-bit integer, that is, does
  not overflow, the sum is the mathematical one: then a frog at \<open>obs.x\<close> on the obstacle's
  row collides (for an obstacle of positive width), and a frog at \<open>obs.x + width\<close> does not.
\<close>

theorem checkCollision_iff_overlap:
  "(checkCollision frg obs \<longleftrightarrow>
      pos_y frg = pos_y (pos obs) \<and> pos_x (pos obs) \<le> pos_x frg
      \<and> pos_x frg < int64 (pos_x (pos obs) + obstacle.width obs))
   \<and> (- 9223372036854775808 \<le> pos_x (pos obs) + obstacle.width obs
       \<and> pos_x (pos obs) + obstacle.width obs < 9223372036854775808 \<longrightarrow>
         (checkCollision frg obs \<longleftrightarrow>
            pos_y frg = pos_y (pos obs) \<and> pos_x (pos obs) \<le> pos_x frg
            \<and> pos_x frg < pos_x (pos obs) + obstacle.width obs)
       \<and> (checkCollision \<lparr>pos_x = pos_x (pos obs), pos_y = pos_y (pos obs)\<rparr> obs
            \<longleftrightarrow> 0 < obstacle.width obs)
       \<and> \<not> checkCollision
             \<lparr>pos_x = pos_x (pos obs) + obstacle.width obs, pos_y = pos_y (pos obs)\<rparr> obs)"
proof (intro conjI impI)
  show "checkCollision frg obs \<longleftrightarrow>
      pos_y frg = pos_y (pos obs) \<and> pos_x (pos obs) \<le> pos_x frg
      \<and> pos_x frg < int64 (pos_x (pos obs) + obstacle.width obs)"
    by (auto simp: checkCollision_def)
next
  assume "- 9223372036854775808 \<le> pos_x (pos obs) + obstacle.width obs
       \<and> pos_x (pos obs) + obstacle.width obs < 9223372036854775808"
  then have s: "int64 (pos_x (pos obs) + obstacle.width obs) = pos_x (pos obs) + obstacle.width obs"
    by (simp add: int64_in_range)
  show "checkCollision frg obs \<longleftrightarrow>
            pos_y frg = pos_y (pos obs) \<and> pos_x (pos obs) \<le> pos_x frg
            \<and> pos_x frg < pos_x (pos obs) + obstacle.width obs"
    and "checkCollision \<lparr>pos_x = pos_x (pos obs), pos_y = pos_y (pos obs)\<rparr> obs
            \<longleftrightarrow> 0 < obstacle.width obs"
    and "\<not> checkCollision
             \<lparr>pos_x = pos_x (pos obs) + obstacle.width obs, pos_y = pos_y (pos obs)\<rparr> obs"
    by (auto simp: checkCollision_def s)
qed

theorem checkCollision_iff_overlap_witness:
  "- 9223372036854775808 \<le> pos_x (pos wideObstacle) + obstacle.width wideObstacle
   \<and> pos_x (pos wideObstacle) + obstacle.width wideObstacle < 9223372036854775808
   \<and> checkCollision \<lparr>pos_x = 10, pos_y = 10\<rparr> wideObstacle
   \<and> checkCollision \<lparr>pos_x = 11, pos_y = 10\<rparr> wideObstacle
   \<and> \<not> checkCollision \<lparr>pos_x = 12, pos_y = 10\<rparr> wideObstacle
   \<and> \<not> checkCollision \<lparr>pos_x = 10, pos_y = 11\<rparr> wideObstacle"
proof -
  have p: "pos_x (pos wideObstacle) = 10" "pos_y (pos wideObstacle) = 10"
    "obstacle.width wideObstacle = 2"
    by (simp_all add: wideObstacle_def)
  have h: "- 9223372036854775808 \<le> pos_x (pos wideObstacle) + obstacle.width wideObstacle
           \<and> pos_x (pos wideObstacle) + obstacle.width wideObstacle < 9223372036854775808"
    by (simp add: p)
  note t = checkCollision_iff_overlap [THEN conjunct2, rule_format, OF h, THEN conjunct1]
  have a: "checkCollision \<lparr>pos_x = 10, pos_y = 10\<rparr> wideObstacle"
    unfolding t [of "\<lparr>pos_x = 10, pos_y = 10\<rparr>"] by (simp add: p)
  have b: "checkCollision \<lparr>pos_x = 11, pos_y = 10\<rparr> wideObstacle"
    unfolding t [of "\<lparr>pos_x = 11, pos_y = 10\<rparr>"] by (simp add: p)
  have c: "\<not> checkCollision \<lparr>pos_x = 12, pos_y = 10\<rparr> wideObstacle"
    unfolding t [of "\<lparr>pos_x = 12, pos_y = 10\<rparr>"] by (simp add: p)
  have d: "\<not> checkCollision \<lparr>pos_x = 10, pos_y = 11\<rparr> wideObstacle"
    unfolding t [of "\<lparr>pos_x = 10, pos_y = 11\<rparr>"] by (simp add: p)
  from h a b c d show ?thesis
    by blast
qed

text \<open>
  Where the sum overflows the code differs from the interval: for an obstacle of width 1 at
  the greatest 64-bit column, a frog on the same cell does not collide.
\<close>

lemma checkCollision_at_int_limit:
  "\<not> checkCollision \<lparr>pos_x = 9223372036854775807, pos_y = 10\<rparr>
       (wideObstacle\<lparr>pos := \<lparr>pos_x = 9223372036854775807, pos_y = 10\<rparr>, obstacle.width := 1\<rparr>)"
  by (simp add: checkCollision_def int64_def)

subsection \<open>Determinism of the obstacle field\<close>

text \<open>
  Claim C4. Obstacle generation is a function of the vulnerability list, the lanes and the
  viewport width alone: two models that agree on lanes and width get the same list of
  obstacles (integer and float positions, widths, velocities and all other fields), whatever
  the rest of their state. Hence two games started from the same list at the same width have
  the same obstacles, and a restart, which regenerates from the cached list, produces the
  field of a fresh start from that list.
\<close>

theorem generateObstacles_deterministic:
  "(lanes m1 = lanes m2 \<and> Model.width m1 = Model.width m2 \<longrightarrow>
      obstacles (generateObstacles e m1 vulns) = obstacles (generateObstacles e m2 vulns))
   \<and> (Model.width m1 = Model.width m2 \<longrightarrow>
      obstacles (startGame e t1 m1 vulns) = obstacles (startGame e t2 m2 vulns))
   \<and> (Model.width m1 = Model.width m2 \<and> loadedVulns m1 = vulns \<longrightarrow>
      obstacles (fst (restartGame e t1 m1)) = obstacles (startGame e t2 m2 vulns))"
proof (intro conjI impI)
  assume "lanes m1 = lanes m2 \<and> Model.width m1 = Model.width m2"
  then show "obstacles (generateObstacles e m1 vulns) = obstacles (generateObstacles e m2 vulns)"
    by (intro generateObstacles_cong) simp_all
next
  assume w: "Model.width m1 = Model.width m2"
  show "obstacles (startGame e t1 m1 vulns) = obstacles (startGame e t2 m2 vulns)"
    unfolding obstacles_startGame by (rule generateObstacles_cong) (simp_all add: w)
next
  assume a: "Model.width m1 = Model.width m2 \<and> loadedVulns m1 = vulns"
  have "obstacles (generateObstacles e (m1\<lparr>lanes := initLanes\<rparr>) vulns)
        = obstacles (generateObstacles e (m2\<lparr>lanes := initLanes\<rparr>) vulns)"
    by (rule generateObstacles_cong) (simp_all add: a)
  then show "obstacles (fst (restartGame e t1 m1)) = obstacles (startGame e t2 m2 vulns)"
    unfolding obstacles_startGame obstacles_restartGame using a by simp
qed

theorem generateObstacles_deterministic_witness:
  "lanes (testModel\<lparr>loadedVulns := testVulns, state := stateGameOver\<rparr>) = lanes testModel
   \<and> Model.width (testModel\<lparr>loadedVulns := testVulns, state := stateGameOver\<rparr>)
       = Model.width testModel
   \<and> loadedVulns (testModel\<lparr>loadedVulns := testVulns, state := stateGameOver\<rparr>) = testVulns
   \<and> obstacles (generateObstacles amd64
         (testModel\<lparr>loadedVulns := testVulns, state := stateGameOver\<rparr>) testVulns)
       = obstacles (generateObstacles amd64 testModel testVulns)
   \<and> obstacles (startGame amd64 5
         (testModel\<lparr>loadedVulns := testVulns, state := stateGameOver\<rparr>) testVulns)
       = obstacles (startGame amd64 0 testModel testVulns)
   \<and> obstacles (fst (restartGame amd64 5
         (testModel\<lparr>loadedVulns := testVulns, state := stateGameOver\<rparr>)))
       = obstacles (startGame amd64 0 testModel testVulns)"
  using generateObstacles_deterministic
          [of "testModel\<lparr>loadedVulns := testVulns, state := stateGameOver\<rparr>" testModel
              amd64 testVulns 5 0]
  by simp

subsection \<open>Severity classes\<close>

text \<open>
  Claim C6. \<^verbatim>\<open>getObstacleProperties\<close> looks at the score first and at the label only when
  the score is not positive. A score of at least 9, or the label Critical with score 0,
  gives width 2 and multiplier 1.5; a score in \<open>[7, 9)\<close>, or High with score 0, gives width 2
  and multiplier 1.2; a score in \<open>[4, 7)\<close>, or Medium with score 0, gives width 1 and
  multiplier 1.3; Low with score 0 gives width 1 and multiplier 1.0; Negligible with score 0
  gives width 1 and multiplier 0.8; a score in \<open>(0, 4)\<close> gives width 1 and multiplier 1.0
  whatever the label.
\<close>

theorem getObstacleProperties_table:
  assumes "getObstacleProperties vuln = (w, k, t)"
  shows "(CVSS vuln \<ge> 9.0 \<or> CVSS vuln = 0 \<and> Severity vuln = ''Critical'' \<longrightarrow> w = 2 \<and> k = 1.5)
       \<and> (7.0 \<le> CVSS vuln \<and> CVSS vuln < 9.0 \<or> CVSS vuln = 0 \<and> Severity vuln = ''High''
            \<longrightarrow> w = 2 \<and> k = 1.2)
       \<and> (4.0 \<le> CVSS vuln \<and> CVSS vuln < 7.0 \<or> CVSS vuln = 0 \<and> Severity vuln = ''Medium''
            \<longrightarrow> w = 1 \<and> k = 1.3)
       \<and> (CVSS vuln = 0 \<and> Severity vuln = ''Low'' \<longrightarrow> w = 1 \<and> k = 1.0)
       \<and> (CVSS vuln = 0 \<and> Severity vuln = ''Negligible'' \<longrightarrow> w = 1 \<and> k = 0.8)
       \<and> (0 < CVSS vuln \<and> CVSS vuln < 4.0 \<longrightarrow> w = 1 \<and> k = 1.0)"
  using assms by (auto simp: getObstacleProperties_def split: if_splits)

theorem getObstacleProperties_table_witness:
  "fst (getObstacleProperties (vulnOf 9.5 ''Low'')) = 2
   \<and> fst (snd (getObstacleProperties (vulnOf 9.5 ''Low''))) = 1.5
   \<and> fst (getObstacleProperties (vulnOf 0 ''Critical'')) = 2
   \<and> fst (snd (getObstacleProperties (vulnOf 0 ''Critical''))) = 1.5
   \<and> fst (getObstacleProperties (vulnOf 7.5 ''Low'')) = 2
   \<and> fst (snd (getObstacleProperties (vulnOf 7.5 ''Low''))) = 1.2
   \<and> fst (getObstacleProperties (vulnOf 0 ''Medium'')) = 1
   \<and> fst (snd (getObstacleProperties (vulnOf 0 ''Medium''))) = 1.3
   \<and> fst (getObstacleProperties (vulnOf 0 ''Low'')) = 1
   \<and> fst (snd (getObstacleProperties (vulnOf 0 ''Low''))) = 1.0
   \<and> fst (getObstacleProperties (vulnOf 0 ''Negligible'')) = 1
   \<and> fst (snd (getObstacleProperties (vulnOf 0 ''Negligible''))) = 0.8
   \<and> fst (getObstacleProperties (vulnOf 2.5 ''Critical'')) = 1
   \<and> fst (snd (getObstacleProperties (vulnOf 2.5 ''Critical''))) = 1.0"
proof -
  have p: "getObstacleProperties v = (fst (getObstacleProperties v),
        fst (snd (getObstacleProperties v)), snd (snd (getObstacleProperties v)))" for v
    by simp
  show ?thesis
    using getObstacleProperties_table [OF p, of "vulnOf 9.5 ''Low''"]
          getObstacleProperties_table [OF p, of "vulnOf 0 ''Critical''"]
          getObstacleProperties_table [OF p, of "vulnOf 7.5 ''Low''"]
          getObstacleProperties_table [OF p, of "vulnOf 0 ''Medium''"]
          getObstacleProperties_table [OF p, of "vulnOf 0 ''Low''"]
          getObstacleProperties_table [OF p, of "vulnOf 0 ''Negligible''"]
          getObstacleProperties_table [OF p, of "vulnOf 2.5 ''Critical''"]
    by (simp add: vulnOf_def)
qed

subsection \<open>Restart\<close>

lemma state_initializeDecorativeItems:
  "state (initializeDecorativeItems m) = state m"
  by (simp add: initializeDecorativeItems_def)

lemma state_generateObstacles:
  "state (generateObstacles e m vulns) = state m"
  by (simp add: generateObstacles_def)

lemma loadedVulns_generateObstacles:
  "loadedVulns (generateObstacles e m vulns) = loadedVulns m"
  by (simp add: generateObstacles_def)

lemma state_startGame: "state (startGame e now m vulns) = statePlaying"
  unfolding startGame_def Let_def
  by (cases "length vulns = 0")
     (simp_all add: initializeDecorativeItems_def state_generateObstacles)

lemma loadedVulns_startGame: "loadedVulns (startGame e now m vulns) = loadedVulns m"
  unfolding startGame_def Let_def
  by (cases "length vulns = 0")
     (simp_all add: initializeDecorativeItems_def loadedVulns_generateObstacles)

lemma handleKeyPress_restart:
  assumes "state m = stateGameOver \<or> state m = stateVictory"
    and "key = ''enter'' \<or> key = '' ''"
  shows "handleKeyPress e now m key = restartGame e now m"
proof -
  have "state m \<noteq> statePlaying"
    using assms(1) by auto
  moreover have "\<not> (key = ''q'' \<or> key = ''esc'' \<or> key = ''ctrl+c'')"
    using assms(2) by auto
  ultimately show ?thesis
    unfolding handleKeyPress_def using assms by simp
qed

text \<open>
  Claim C7. In the states GameOver and Victory the keys \<^verbatim>\<open>enter\<close> and space restart the
  game: the new state is Playing, the cached list of vulnerabilities is kept, the command
  handed back is the tick and does not call the provider, and the obstacles are those of a
  fresh load of the cached list into any model of the same viewport width.
\<close>

theorem restart_reuses_cached_vulnerabilities:
  assumes "state m = stateGameOver \<or> state m = stateVictory"
    and "key = ''enter'' \<or> key = '' ''"
  shows "state (fst (handleKeyPress e now m key)) = statePlaying
       \<and> loadedVulns (fst (handleKeyPress e now m key)) = loadedVulns m
       \<and> snd (handleKeyPress e now m key) = Tick
       \<and> \<not> callsProvider (snd (handleKeyPress e now m key))
       \<and> (Model.width m0 = Model.width m \<longrightarrow>
            obstacles (fst (handleKeyPress e now m key))
            = obstacles (fst (Update e t0 m0 (vulnerabilitiesLoadedMsg (loadedVulns m)))))"
proof -
  have r: "handleKeyPress e now m key = restartGame e now m"
    by (rule handleKeyPress_restart [OF assms])
  have s: "state (fst (restartGame e now m)) = statePlaying"
    by (simp add: restartGame_def Let_def state_startGame)
  have l: "loadedVulns (fst (restartGame e now m)) = loadedVulns m"
    by (simp add: restartGame_def Let_def loadedVulns_startGame)
  have c: "snd (restartGame e now m) = Tick"
    by (simp add: restartGame_def Let_def)
  have o: "obstacles (fst (restartGame e now m))
           = obstacles (fst (Update e t0 m0 (vulnerabilitiesLoadedMsg (loadedVulns m))))"
    if w: "Model.width m0 = Model.width m"
  proof -
    have "obstacles (generateObstacles e (m\<lparr>lanes := initLanes\<rparr>) (loadedVulns m))
          = obstacles (generateObstacles e (m0\<lparr>loadedVulns := loadedVulns m, lanes := initLanes\<rparr>)
                         (loadedVulns m))"
      by (rule generateObstacles_cong) (simp_all add: w)
    then show ?thesis
      by (simp add: obstacles_restartGame obstacles_startGame)
  qed
  show ?thesis
    unfolding r using s l c o by simp
qed

theorem restart_reuses_cached_vulnerabilities_witness:
  "state (testModel\<lparr>state := stateGameOver, loadedVulns := testVulns\<rparr>) = stateGameOver
   \<and> state (fst (handleKeyPress amd64 9 (testModel\<lparr>state := stateGameOver, loadedVulns := testVulns\<rparr>) ''enter'')) = statePlaying
   \<and> snd (handleKeyPress amd64 9 (testModel\<lparr>state := stateGameOver, loadedVulns := testVulns\<rparr>) ''enter'') = Tick
   \<and> obstacles (fst (handleKeyPress amd64 9 (testModel\<lparr>state := stateGameOver, loadedVulns := testVulns\<rparr>) ''enter''))
     = obstacles (fst (Update amd64 1 (NewModel 0 (FileSource [])) (vulnerabilitiesLoadedMsg testVulns)))
   \<and> state (fst (handleKeyPress amd64 9 (testModel\<lparr>state := stateVictory, loadedVulns := testVulns\<rparr>) '' '')) = statePlaying"
proof -
  have w: "Model.width (NewModel 0 (FileSource [])) = Model.width testModel"
    by (simp add: testModel_def)
  show ?thesis
    using restart_reuses_cached_vulnerabilities
            [of "testModel\<lparr>state := stateGameOver, loadedVulns := testVulns\<rparr>" "''enter''"
                amd64 9 "NewModel 0 (FileSource [])" 1]
          restart_reuses_cached_vulnerabilities
            [of "testModel\<lparr>state := stateVictory, loadedVulns := testVulns\<rparr>" "'' ''"
                amd64 9 "NewModel 0 (FileSource [])" 1]
    by (simp add: w)
qed

subsection \<open>A game without vulnerabilities\<close>

lemma updateGame_no_obstacles:
  assumes "obstacles m = []"
  shows "state (updateGame e now m) = state m"
    and "frog (updateGame e now m) = frog m"
    and "obstacles (updateGame e now m) = []"
  using assms by (simp_all add: updateGame_def Let_def)

lemma moveFrog_up:
  "moveFrog now m ''up'' =
     (if pos_y (frog m) > 0
      then noteFirstMove now (m\<lparr>frog := (frog m)\<lparr>pos_y := pos_y (frog m) - 1\<rparr>\<rparr>) else m)"
  by (simp add: moveFrog_def)

lemma noteFirstMove_fields:
  "frog (noteFirstMove now m) = frog m"
  "state (noteFirstMove now m) = state m"
  "obstacles (noteFirstMove now m) = obstacles m"
  "Model.width (noteFirstMove now m) = Model.width m"
  "height (noteFirstMove now m) = height m"
  by (simp_all add: noteFirstMove_def)

lemma handleKeyPress_up:
  assumes "state m = statePlaying" and "0 < pos_y (frog m)"
  shows "state (fst (handleKeyPress e now m ''up''))
         = (if pos_y (frog m) = 1 then stateVictory else statePlaying)"
    and "pos_y (frog (fst (handleKeyPress e now m ''up''))) = pos_y (frog m) - 1"
    and "obstacles (fst (handleKeyPress e now m ''up'')) = obstacles m"
  using assms by (simp_all add: handleKeyPress_def moveFrog_up noteFirstMove_fields Let_def)

lemma handleKeyPress_up_terminal:
  assumes "state m = stateVictory"
  shows "fst (handleKeyPress e now m ''up'') = m"
  using assms by (simp add: handleKeyPress_def)

lemma run_victory:
  assumes "state m = stateVictory" and "list_all upOrTick evs"
  shows "state (run e m evs) = stateVictory"
  using assms
proof (induction evs arbitrary: m)
  case Nil
  then show ?case by simp
next
  case (Cons ev evs)
  obtain now x where ev: "ev = (now, x)" by (cases ev)
  have "fst (Update e now m x) = m"
    using Cons.prems ev
    by (cases x) (simp_all add: upOrTick_def isTick_def handleKeyPress_up_terminal)
  then show ?case
    using Cons ev by simp
qed

lemma run_to_finish:
  assumes "state m = statePlaying" and "obstacles m = []" and "0 < pos_y (frog m)"
    and "list_all upOrTick evs"
  shows "state (run e m evs)
         = (if nat (pos_y (frog m)) \<le> ups evs then stateVictory else statePlaying)"
  using assms
proof (induction evs arbitrary: m)
  case Nil
  then show ?case by (simp add: ups_def)
next
  case (Cons ev evs)
  obtain now x where ev: "ev = (now, x)" by (cases ev)
  have ok: "list_all upOrTick evs"
    using Cons.prems(4) by simp
  consider (up) "x = KeyMsg ''up''" | (tick) t where "x = tickMsg t"
    using Cons.prems(4) ev by (cases x) (auto simp: upOrTick_def isTick_def)
  then show ?case
  proof cases
    case up
    let ?m' = "fst (handleKeyPress e now m ''up'')"
    note h = handleKeyPress_up [OF Cons.prems(1) Cons.prems(3), of e now]
    have r: "run e m (ev # evs) = run e ?m' evs"
      by (simp add: ev up)
    have u: "ups (ev # evs) = Suc (ups evs)"
      by (simp add: ups_def ev up)
    show ?thesis
    proof (cases "pos_y (frog m) = 1")
      case True
      then have "state ?m' = stateVictory"
        using h(1) by simp
      then have "state (run e ?m' evs) = stateVictory"
        using ok by (rule run_victory)
      then show ?thesis
        using True r u by simp
    next
      case False
      then have s: "state ?m' = statePlaying" and p: "0 < pos_y (frog ?m')"
        using h(1,2) Cons.prems(3) by simp_all
      have o: "obstacles ?m' = []"
        using h(3) Cons.prems(2) by simp
      have "state (run e ?m' evs)
            = (if nat (pos_y (frog ?m')) \<le> ups evs then stateVictory else statePlaying)"
        using s o p ok by (rule Cons.IH)
      then show ?thesis
        using r u h(2) Cons.prems(3) by (simp add: nat_diff_distrib' Suc_le_eq) linarith
    qed
  next
    case tick
    let ?m' = "updateGame e now m"
    note g = updateGame_no_obstacles [OF Cons.prems(2), of e now]
    have r: "run e m (ev # evs) = run e ?m' evs"
      by (simp add: ev tick Cons.prems(1))
    have u: "ups (ev # evs) = ups evs"
      by (simp add: ups_def ev tick)
    have "state (run e ?m' evs)
          = (if nat (pos_y (frog ?m')) \<le> ups evs then stateVictory else statePlaying)"
      using Cons.prems(1,2,3) g ok by (intro Cons.IH) simp_all
    then show ?thesis
      using r u g(2) by simp
  qed
qed

lemma sdiv_nonneg: "0 \<le> a \<Longrightarrow> 0 < b \<Longrightarrow> (a::int) sdiv b = a div b"
  by (simp add: signed_divide_int_def sgn_if)

lemma smod_nonneg: "0 \<le> a \<Longrightarrow> 0 < b \<Longrightarrow> (a::int) smod b = a mod b"
  by (simp add: signed_modulo_int_def sgn_if)

lemma startGame_empty:
  "startGame e now m [] =
     (initializeDecorativeItems
        (m\<lparr>state := statePlaying, gameStartTime := now, totalVulns := 0,
           frog := \<lparr>pos_x = Model.width m sdiv 2, pos_y = gameAreaHeight - 1\<rparr>,
           lanes := initLanes, obstacles := [], isZeroVulnGame := True\<rparr>))\<lparr>lastUpdate := now\<rparr>"
  by (simp add: startGame_def Let_def generateObstacles_def)

lemma newDecorativeItem_fields:
  assumes "i < 12" and "pos_y (frog m) = gameAreaHeight - 1"
  shows "item_x (newDecorativeItem m i) = (int i * Model.width m) sdiv 12 + int (i mod 3) - 1"
    and "item_y (newDecorativeItem m i) = 1 + int i"
    and "symbol (newDecorativeItem m i) = symbols ! (i mod length symbols)"
proof -
  have "int i smod (gameAreaHeight - 2) = int i"
    using assms(1) by (simp add: smod_nonneg gameAreaHeight_def)
  then show "item_x (newDecorativeItem m i) = (int i * Model.width m) sdiv 12 + int (i mod 3) - 1"
    and "item_y (newDecorativeItem m i) = 1 + int i"
    and "symbol (newDecorativeItem m i) = symbols ! (i mod length symbols)"
    using assms by (simp_all add: newDecorativeItem_def Let_def gameAreaHeight_def)
qed

text \<open>
  Claim C8. Started with the empty list, the game is in the state Playing and marked as a
  zero-vulnerability game, has no obstacle, and has exactly 12 decorative items. Item \<open>i\<close>
  stands in column \<open>i * width / 12 + i % 3 - 1\<close>, that is within one cell of the evenly spaced
  grid, on row \<open>1 + i\<close>, carries a symbol of the palette, and is not at the frog's spawn
  cell. From that state every sequence of ticks and presses of \<^verbatim>\<open>up\<close> with at least 19
  presses ends in the state Victory: no collision check stops the frog.
\<close>

theorem zero_vulnerabilities_decorative_mode:
  "state (startGame e now m0 []) = statePlaying
   \<and> isZeroVulnGame (startGame e now m0 [])
   \<and> obstacles (startGame e now m0 []) = []
   \<and> frog (startGame e now m0 []) = \<lparr>pos_x = Model.width m0 sdiv 2, pos_y = gameAreaHeight - 1\<rparr>
   \<and> length (decorativeItems (startGame e now m0 [])) = 12
   \<and> (\<forall>i < 12.
         item_x (decorativeItems (startGame e now m0 []) ! i)
           = (int i * Model.width m0) sdiv 12 + int (i mod 3) - 1
       \<and> item_y (decorativeItems (startGame e now m0 []) ! i) = 1 + int i
       \<and> symbol (decorativeItems (startGame e now m0 []) ! i) \<in> set symbols
       \<and> \<not> (item_x (decorativeItems (startGame e now m0 []) ! i) = pos_x (frog (startGame e now m0 []))
            \<and> item_y (decorativeItems (startGame e now m0 []) ! i) = pos_y (frog (startGame e now m0 []))))
   \<and> (list_all upOrTick evs \<and> 19 \<le> ups evs \<longrightarrow>
         state (run e (startGame e now m0 []) evs) = stateVictory)"
proof -
  let ?m = "startGame e now m0 []"
  let ?M = "m0\<lparr>state := statePlaying, gameStartTime := now, totalVulns := 0,
           frog := \<lparr>pos_x = Model.width m0 sdiv 2, pos_y = gameAreaHeight - 1\<rparr>,
           lanes := initLanes, obstacles := [], isZeroVulnGame := True\<rparr>"
  have s: "state ?m = statePlaying" and z: "isZeroVulnGame ?m" and o: "obstacles ?m = []"
    and f: "frog ?m = \<lparr>pos_x = Model.width m0 sdiv 2, pos_y = gameAreaHeight - 1\<rparr>"
    and d: "decorativeItems ?m = map (newDecorativeItem ?M) [0..<12]"
    by (simp_all add: startGame_empty initializeDecorativeItems_def)
  have items: "item_x (decorativeItems ?m ! i) = (int i * Model.width m0) sdiv 12 + int (i mod 3) - 1
       \<and> item_y (decorativeItems ?m ! i) = 1 + int i
       \<and> symbol (decorativeItems ?m ! i) \<in> set symbols
       \<and> \<not> (item_x (decorativeItems ?m ! i) = pos_x (frog ?m)
            \<and> item_y (decorativeItems ?m ! i) = pos_y (frog ?m))" if i: "i < 12" for i
  proof -
    have n: "decorativeItems ?m ! i = newDecorativeItem ?M i"
      using i by (simp add: d)
    have y: "pos_y (frog ?M) = gameAreaHeight - 1"
      by simp
    have "symbols ! (i mod length symbols) \<in> set symbols"
      by (rule nth_mem) (simp add: symbols_def)
    then show ?thesis
      unfolding n newDecorativeItem_fields [OF i y] f
      using i by (simp add: gameAreaHeight_def)
  qed
  have v: "state (run e ?m evs) = stateVictory" if "list_all upOrTick evs \<and> 19 \<le> ups evs"
  proof -
    have p: "0 < pos_y (frog ?m)"
      by (simp add: f gameAreaHeight_def)
    have "state (run e ?m evs)
          = (if nat (pos_y (frog ?m)) \<le> ups evs then stateVictory else statePlaying)"
      using s o p that by (intro run_to_finish) simp_all
    then show ?thesis
      using that by (simp add: f gameAreaHeight_def)
  qed
  have len: "length (decorativeItems ?m) = 12"
    by (simp add: d)
  show ?thesis
    using s z o f len items v by blast
qed

theorem zero_vulnerabilities_decorative_mode_witness:
  "list_all upOrTick ((5, tickMsg 5) # replicate 19 (7, KeyMsg ''up''))
   \<and> 19 \<le> ups ((5, tickMsg 5) # replicate 19 (7, KeyMsg ''up''))
   \<and> state (run amd64 (startGame amd64 0 (NewModel 0 (FileSource [])) [])
               ((5, tickMsg 5) # replicate 19 (7, KeyMsg ''up''))) = stateVictory
   \<and> length (decorativeItems (startGame amd64 0 (NewModel 0 (FileSource [])) [])) = 12
   \<and> (3::nat) < 12
   \<and> item_x (decorativeItems (startGame amd64 0 (NewModel 0 (FileSource [])) []) ! 3) = 19
   \<and> item_y (decorativeItems (startGame amd64 0 (NewModel 0 (FileSource [])) []) ! 3) = 4
   \<and> pos_x (frog (startGame amd64 0 (NewModel 0 (FileSource [])) [])) = 40
   \<and> pos_y (frog (startGame amd64 0 (NewModel 0 (FileSource [])) [])) = 19"
proof -
  have a: "list_all upOrTick ((5, tickMsg 5) # replicate 19 (7, KeyMsg ''up''))"
    by (simp add: list_all_iff upOrTick_def isTick_def)
  have b: "19 \<le> ups ((5, tickMsg 5) # replicate 19 (7, KeyMsg ''up''))"
    by (simp add: ups_def)
  have w: "Model.width (NewModel 0 (FileSource [])) = 80"
    by (simp add: NewModel_def)
  note t = zero_vulnerabilities_decorative_mode
             [of amd64 0 "NewModel 0 (FileSource [])"
                 "(5, tickMsg 5) # replicate 19 (7, KeyMsg ''up'')"]
  have v: "state (run amd64 (startGame amd64 0 (NewModel 0 (FileSource [])) [])
               ((5, tickMsg 5) # replicate 19 (7, KeyMsg ''up''))) = stateVictory"
    using t a b by blast
  have l: "length (decorativeItems (startGame amd64 0 (NewModel 0 (FileSource [])) [])) = 12"
    using t by blast
  have i: "item_x (decorativeItems (startGame amd64 0 (NewModel 0 (FileSource [])) []) ! 3) = 19
         \<and> item_y (decorativeItems (startGame amd64 0 (NewModel 0 (FileSource [])) []) ! 3) = 4"
    using t [THEN conjunct2, THEN conjunct2, THEN conjunct2, THEN conjunct2, THEN conjunct2,
             THEN conjunct1, rule_format, of 3]
    by (simp add: w sdiv_nonneg)
  have "frog (startGame amd64 0 (NewModel 0 (FileSource [])) [])
        = \<lparr>pos_x = Model.width (NewModel 0 (FileSource [])) sdiv 2, pos_y = gameAreaHeight - 1\<rparr>"
    using t by blast
  then have f: "pos_x (frog (startGame amd64 0 (NewModel 0 (FileSource [])) [])) = 40
       \<and> pos_y (frog (startGame amd64 0 (NewModel 0 (FileSource [])) [])) = 19"
    by (simp add: w sdiv_nonneg gameAreaHeight_def)
  have "(3::nat) < 12"
    by simp
  with a b v l i f show ?thesis
    by blast
qed

subsection \<open>The frog stays in the game area\<close>

lemma moveFrog_frame:
  "Model.width (moveFrog now m key) = Model.width m"
  "height (moveFrog now m key) = height m"
  by (simp_all add: moveFrog_def noteFirstMove_fields)

lemma moveFrog_bounds:
  assumes "0 \<le> pos_x (frog m)" and "pos_x (frog m) \<le> Model.width m - 1"
    and "0 \<le> pos_y (frog m)" and "pos_y (frog m) \<le> gameAreaHeight - 1"
  shows "0 \<le> pos_x (frog (moveFrog now m key))"
    and "pos_x (frog (moveFrog now m key)) \<le> Model.width m - 1"
    and "0 \<le> pos_y (frog (moveFrog now m key))"
    and "pos_y (frog (moveFrog now m key)) \<le> gameAreaHeight - 1"
  using assms by (simp_all add: moveFrog_def noteFirstMove_fields)

lemma handleKeyPress_playing:
  assumes "state m = statePlaying"
  shows "frog (fst (handleKeyPress e now m key)) = frog (moveFrog now m key) \<or> frog (fst (handleKeyPress e now m key)) = frog m"
    and "Model.width (fst (handleKeyPress e now m key)) = Model.width m"
    and "height (fst (handleKeyPress e now m key)) = height m"
  using assms by (simp_all add: handleKeyPress_def Let_def moveFrog_frame)

lemma frog_startGame:
  "frog (startGame e now m vulns) = \<lparr>pos_x = Model.width m sdiv 2, pos_y = gameAreaHeight - 1\<rparr>"
  "Model.width (startGame e now m vulns) = Model.width m"
  "height (startGame e now m vulns) = height m"
  unfolding startGame_def Let_def
  by (cases "length vulns = 0"; simp add: initializeDecorativeItems_def generateObstacles_def)+

lemma handleKeyPress_up_frame:
  assumes "state m = statePlaying" and "1 < pos_y (frog m)"
  shows "state (fst (handleKeyPress e now m ''up'')) = statePlaying"
    and "frog (fst (handleKeyPress e now m ''up'')) = (frog m)\<lparr>pos_y := pos_y (frog m) - 1\<rparr>"
    and "Model.width (fst (handleKeyPress e now m ''up'')) = Model.width m"
    and "height (fst (handleKeyPress e now m ''up'')) = height m"
  using assms by (simp_all add: handleKeyPress_def moveFrog_up noteFirstMove_fields Let_def)

lemma run_ups:
  assumes "state m = statePlaying" and "int n < pos_y (frog m)"
  shows "state (run e m (replicate n (now, KeyMsg ''up''))) = statePlaying
       \<and> frog (run e m (replicate n (now, KeyMsg ''up''))) = (frog m)\<lparr>pos_y := pos_y (frog m) - int n\<rparr>
       \<and> Model.width (run e m (replicate n (now, KeyMsg ''up''))) = Model.width m
       \<and> height (run e m (replicate n (now, KeyMsg ''up''))) = height m"
  using assms
proof (induction n arbitrary: m)
  case 0
  then show ?case by simp
next
  case (Suc n)
  let ?m' = "fst (handleKeyPress e now m ''up'')"
  have p: "1 < pos_y (frog m)"
    using Suc.prems(2) by simp
  note h = handleKeyPress_up_frame [OF Suc.prems(1) p, of e now]
  have "int n < pos_y (frog ?m')"
    using Suc.prems(2) by (simp add: h(2))
  from Suc.IH [OF h(1) this] show ?case
    by (simp add: h)
qed

lemma smallTerminal_state:
  "state (run amd64 (NewModel 0 (FileSource [])) smallTerminalRun) = statePlaying"
  "frog (run amd64 (NewModel 0 (FileSource [])) smallTerminalRun) = \<lparr>pos_x = 40, pos_y = 7\<rparr>"
  "Model.width (run amd64 (NewModel 0 (FileSource [])) smallTerminalRun) = 80"
  "height (run amd64 (NewModel 0 (FileSource [])) smallTerminalRun) = 10"
proof -
  let ?m1 = "(NewModel 0 (FileSource []))\<lparr>Model.width := 80, height := 10\<rparr>"
  let ?m2 = "startGame amd64 2 (?m1\<lparr>loadedVulns := []\<rparr>) []"
  have r: "run amd64 (NewModel 0 (FileSource [])) smallTerminalRun
           = run amd64 ?m2 (replicate 12 (3, KeyMsg ''up''))"
    by (simp add: smallTerminalRun_def)
  have s: "state ?m2 = statePlaying"
    by (rule state_startGame)
  have f: "frog ?m2 = \<lparr>pos_x = 40, pos_y = 19\<rparr>"
    and w: "Model.width ?m2 = 80" and h: "height ?m2 = 10"
    by (simp_all add: frog_startGame sdiv_nonneg gameAreaHeight_def)
  have "int 12 < pos_y (frog ?m2)"
    by (simp add: f)
  from run_ups [OF s this, of amd64 3]
  show "state (run amd64 (NewModel 0 (FileSource [])) smallTerminalRun) = statePlaying"
    and "frog (run amd64 (NewModel 0 (FileSource [])) smallTerminalRun) = \<lparr>pos_x = 40, pos_y = 7\<rparr>"
    and "Model.width (run amd64 (NewModel 0 (FileSource [])) smallTerminalRun) = 80"
    and "height (run amd64 (NewModel 0 (FileSource [])) smallTerminalRun) = 10"
    unfolding r by (simp_all add: f w h)
qed

lemma handleKeyPress_down:
  assumes "state m = statePlaying" and "0 < pos_y (frog m)" and "pos_y (frog m) < gameAreaHeight - 1"
  shows "frog (fst (handleKeyPress e now m ''down'')) = (frog m)\<lparr>pos_y := pos_y (frog m) + 1\<rparr>"
    and "height (fst (handleKeyPress e now m ''down'')) = height m"
  using assms by (simp_all add: handleKeyPress_def moveFrog_def noteFirstMove_fields Let_def)

text \<open>
  Claim C10, as stated, bounds the frog's row by the viewport height minus the two header
  rows. It fails in a terminal of 10 rows: after the session \<open>smallTerminalRun\<close> the frog is
  at row 7, the last row of a playable height of 8, and a press of \<^verbatim>\<open>down\<close> moves it to
  row 8.
\<close>

theorem playable_height_from_viewport_counterexample:
  "state (run amd64 (NewModel 0 (FileSource [])) smallTerminalRun) = statePlaying
   \<and> 0 \<le> pos_x (frog (run amd64 (NewModel 0 (FileSource [])) smallTerminalRun))
   \<and> pos_x (frog (run amd64 (NewModel 0 (FileSource [])) smallTerminalRun))
       \<le> Model.width (run amd64 (NewModel 0 (FileSource [])) smallTerminalRun) - 1
   \<and> 0 \<le> pos_y (frog (run amd64 (NewModel 0 (FileSource [])) smallTerminalRun))
   \<and> pos_y (frog (run amd64 (NewModel 0 (FileSource [])) smallTerminalRun))
       \<le> (height (run amd64 (NewModel 0 (FileSource [])) smallTerminalRun) - 2) - 1
   \<and> \<not> pos_y (frog (fst (handleKeyPress amd64 4
              (run amd64 (NewModel 0 (FileSource [])) smallTerminalRun) ''down'')))
       \<le> (height (fst (handleKeyPress amd64 4
              (run amd64 (NewModel 0 (FileSource [])) smallTerminalRun) ''down'')) - 2) - 1"
proof -
  have "0 < pos_y (frog (run amd64 (NewModel 0 (FileSource [])) smallTerminalRun))"
    and "pos_y (frog (run amd64 (NewModel 0 (FileSource [])) smallTerminalRun)) < gameAreaHeight - 1"
    by (simp_all add: smallTerminal_state gameAreaHeight_def)
  from handleKeyPress_down [OF smallTerminal_state(1) this, of amd64 4] show ?thesis
    by (simp add: smallTerminal_state)
qed

text \<open>
  Claim C10, amended. The playable height is the constant \<^verbatim>\<open>gameAreaHeight\<close> = 20, whatever
  the height of the viewport. A key press in the state Playing keeps a frog with
  \<open>0 \<le> x \<le> width - 1\<close> and \<open>0 \<le> y \<le> gameAreaHeight - 1\<close> within these bounds, and leaves
  the viewport width unchanged.
\<close>

theorem frog_stays_in_game_area:
  assumes "state m = statePlaying"
    and "0 \<le> pos_x (frog m)" and "pos_x (frog m) \<le> Model.width m - 1"
    and "0 \<le> pos_y (frog m)" and "pos_y (frog m) \<le> gameAreaHeight - 1"
  shows "0 \<le> pos_x (frog (fst (handleKeyPress e now m key)))
       \<and> pos_x (frog (fst (handleKeyPress e now m key)))
           \<le> Model.width (fst (handleKeyPress e now m key)) - 1
       \<and> 0 \<le> pos_y (frog (fst (handleKeyPress e now m key)))
       \<and> pos_y (frog (fst (handleKeyPress e now m key))) \<le> gameAreaHeight - 1
       \<and> gameAreaHeight = 20
       \<and> Model.width (fst (handleKeyPress e now m key)) = Model.width m"
  using handleKeyPress_playing [OF assms(1), of e now key] moveFrog_bounds [OF assms(2-5), of now key] assms(2-5)
  by (auto simp: gameAreaHeight_def)

theorem frog_stays_in_game_area_witness:
  "state (startGame amd64 0 testModel testVulns) = statePlaying
   \<and> frog (startGame amd64 0 testModel testVulns) = \<lparr>pos_x = 40, pos_y = 19\<rparr>
   \<and> Model.width (startGame amd64 0 testModel testVulns) = 80
   \<and> 0 \<le> pos_x (frog (fst (handleKeyPress amd64 1 (startGame amd64 0 testModel testVulns) ''down'')))
   \<and> pos_x (frog (fst (handleKeyPress amd64 1 (startGame amd64 0 testModel testVulns) ''down''))) \<le> 79
   \<and> 0 \<le> pos_y (frog (fst (handleKeyPress amd64 1 (startGame amd64 0 testModel testVulns) ''down'')))
   \<and> pos_y (frog (fst (handleKeyPress amd64 1 (startGame amd64 0 testModel testVulns) ''down''))) \<le> 19"
proof -
  have w: "Model.width testModel = 80"
    by (simp add: testModel_def NewModel_def)
  have s: "state (startGame amd64 0 testModel testVulns) = statePlaying"
    by (rule state_startGame)
  have f: "frog (startGame amd64 0 testModel testVulns) = \<lparr>pos_x = 40, pos_y = 19\<rparr>"
    and v: "Model.width (startGame amd64 0 testModel testVulns) = 80"
    by (simp_all add: frog_startGame w sdiv_nonneg gameAreaHeight_def)
  have "0 \<le> pos_x (frog (startGame amd64 0 testModel testVulns))"
    and "pos_x (frog (startGame amd64 0 testModel testVulns))
         \<le> Model.width (startGame amd64 0 testModel testVulns) - 1"
    and "0 \<le> pos_y (frog (startGame amd64 0 testModel testVulns))"
    and "pos_y (frog (startGame amd64 0 testModel testVulns)) \<le> gameAreaHeight - 1"
    by (simp_all add: f v gameAreaHeight_def)
  from frog_stays_in_game_area [OF s this, of amd64 1 "''down''"] s f v show ?thesis
    by (simp add: gameAreaHeight_def)
qed

subsection \<open>The physics step and the wrap\<close>

lemma trunc_of_int: "trunc (of_int n) = n"
  by (simp add: trunc_def)

lemma trunc_close: "r - 1 < of_int (trunc r)" "of_int (trunc r) < r + 1"
  by (simp_all add: trunc_def) linarith+

lemma obstacles_updateGame:
  "obstacles (updateGame e now m)
   = map (moveObstacle (Model.width m) (Seconds (now - lastUpdate m))) (obstacles m)"
  "lastUpdate (updateGame e now m) = now"
  "Model.width (updateGame e now m) = Model.width m"
  by (simp_all add: updateGame_def Let_def split: option.splits)

lemma moveObstacle_frame:
  "obstacle.width (moveObstacle vw delta ob) = obstacle.width ob"
  "speed (moveObstacle vw delta ob) = speed ob"
  "pos_y (pos (moveObstacle vw delta ob)) = pos_y (pos ob)"
  "cveID (moveObstacle vw delta ob) = cveID ob"
  by (simp_all add: moveObstacle_def Let_def)

lemma moveObstacle_trunc:
  "pos_x (pos (moveObstacle vw delta ob)) = trunc (floatX (moveObstacle vw delta ob))"
  by (simp add: moveObstacle_def Let_def trunc_of_int del: of_int_add of_int_diff of_int_minus)

lemma moveObstacle_wrap:
  assumes "wraps vw delta ob"
  shows "floatX (moveObstacle vw delta ob) = of_int (pos_x (pos (moveObstacle vw delta ob)))"
    and "pos_x (pos (moveObstacle vw delta ob)) = vw + 5
         \<or> pos_x (pos (moveObstacle vw delta ob)) = - obstacle.width ob - 5"
  using assms by (auto simp: moveObstacle_def Let_def wraps_def)

lemma moveObstacle_int_range:
  assumes "- obstacle.width ob - 5 \<le> vw + 5"
  shows "- obstacle.width ob - 5 \<le> pos_x (pos (moveObstacle vw delta ob))"
    and "pos_x (pos (moveObstacle vw delta ob)) \<le> vw + 5"
  using assms by (auto simp: moveObstacle_def Let_def)

lemma moveObstacle_float_range:
  assumes "- obstacle.width ob - 5 \<le> vw + 5"
  shows "- of_int (obstacle.width ob) - 6 < floatX (moveObstacle vw delta ob)"
    and "floatX (moveObstacle vw delta ob) < of_int vw + 6"
proof -
  let ?ob = "moveObstacle vw delta ob"
  have t: "pos_x (pos ?ob) = trunc (floatX ?ob)"
    by (rule moveObstacle_trunc)
  have "of_int (- obstacle.width ob - 5) \<le> (of_int (trunc (floatX ?ob)) :: real)"
    using moveObstacle_int_range(1) [OF assms, of delta] unfolding t by (simp only: of_int_le_iff)
  then show "- of_int (obstacle.width ob) - 6 < floatX ?ob"
    using trunc_close(2) [of "floatX ?ob"] by simp
  have "(of_int (trunc (floatX ?ob)) :: real) \<le> of_int (vw + 5)"
    using moveObstacle_int_range(2) [OF assms, of delta] unfolding t by (simp only: of_int_le_iff)
  then show "floatX ?ob < of_int vw + 6"
    using trunc_close(1) [of "floatX ?ob"] by simp
qed

text \<open>
  After a physics step the sum read by \<^verbatim>\<open>checkCollision\<close> does not overflow, for viewport
  and obstacle widths below \<open>2^31\<close>.
\<close>

lemma moveObstacle_sum_in_range:
  assumes "0 \<le> vw" and "vw < 2147483648"
    and "0 \<le> obstacle.width ob" and "obstacle.width ob < 2147483648"
  shows "- 9223372036854775808
           \<le> pos_x (pos (moveObstacle vw delta ob)) + obstacle.width (moveObstacle vw delta ob)"
    and "pos_x (pos (moveObstacle vw delta ob)) + obstacle.width (moveObstacle vw delta ob)
           < 9223372036854775808"
proof -
  have r: "- obstacle.width ob - 5 \<le> vw + 5"
    using assms by simp
  show "- 9223372036854775808
           \<le> pos_x (pos (moveObstacle vw delta ob)) + obstacle.width (moveObstacle vw delta ob)"
    using moveObstacle_int_range(1) [OF r, of delta] assms
    by (simp add: moveObstacle_frame)
  show "pos_x (pos (moveObstacle vw delta ob)) + obstacle.width (moveObstacle vw delta ob)
           < 9223372036854775808"
    using moveObstacle_int_range(2) [OF r, of delta] assms
    by (simp add: moveObstacle_frame)
qed

lemma initLanes_eq:
  "initLanes =
     [\<lparr>lane_y = 18, direction = 1, lane_speed = 0.5\<rparr>,
      \<lparr>lane_y = 16, direction = - 1, lane_speed = 0.8\<rparr>,
      \<lparr>lane_y = 14, direction = 1, lane_speed = 1.1\<rparr>,
      \<lparr>lane_y = 12, direction = - 1, lane_speed = 0.5\<rparr>,
      \<lparr>lane_y = 10, direction = 1, lane_speed = 0.8\<rparr>,
      \<lparr>lane_y = 8, direction = - 1, lane_speed = 1.1\<rparr>,
      \<lparr>lane_y = 6, direction = 1, lane_speed = 0.5\<rparr>,
      \<lparr>lane_y = 4, direction = - 1, lane_speed = 0.8\<rparr>]"
  by (simp add: initLanes_def lanePositions_def gameAreaHeight_def)

lemma length_initLanes: "length initLanes = 8"
  by (simp add: initLanes_eq)

lemma freshGame_obstacle_72:
  "obstacles freshGame ! 72 =
     \<lparr>pos = \<lparr>pos_x = 79, pos_y = 18\<rparr>, floatX = 79, obstacle.width = 1, speed = 0.5,
      cveID = ''CVE-2021-1'', severity = 0, severityLabel = ''Low''\<rparr>"
proof -
  let ?M = "(NewModel 0 (FileSource []))\<lparr>lanes := initLanes\<rparr>"
  have l: "lanes ?M \<noteq> []" and n: "length (lanes ?M) = 8" and w: "Model.width ?M = 80"
    by (simp_all add: initLanes_eq NewModel_def)
  have v: "replicate 80 (vulnOf 0 ''Low'') ! 72 = vulnOf 0 ''Low''"
    by simp
  have g: "getObstacleProperties (vulnOf 0 ''Low'') = (1, 1.0, obstacleTypeCar)"
    by (simp add: getObstacleProperties_def vulnOf_def)
  have x: "wrappedX 80 8 72 = Some 179.5"
    by (simp add: wrappedX_def loopLength_def spacing_def math_Mod_def trunc_def Let_def)
  have ll: "trunc (loopLength 80 8) = 200"
    by (simp add: loopLength_def spacing_def trunc_def)
  have ln: "lanes ?M ! (72 mod 8) = \<lparr>lane_y = 18, direction = 1, lane_speed = 0.5\<rparr>"
    by (simp add: initLanes_eq)
  have "obstacles freshGame ! 72 = newObstacle amd64 ?M 80 72 (vulnOf 0 ''Low'')"
    unfolding freshGame_def obstacles_startGame
    using nth_generateObstacles [OF l, of 72 "replicate 80 (vulnOf 0 ''Low'')" amd64]
    by simp
  also have "\<dots> = \<lparr>pos = \<lparr>pos_x = 79, pos_y = 18\<rparr>, floatX = 79, obstacle.width = 1, speed = 0.5,
      cveID = ''CVE-2021-1'', severity = 0, severityLabel = ''Low''\<rparr>"
    unfolding newObstacle_def n w g x ll ln Let_def
    by (simp add: toInt_def trunc_def sdiv_nonneg vulnOf_def)
  finally show ?thesis .
qed

lemma lastUpdate_startGame: "lastUpdate (startGame e now m vulns) = now"
  by (simp add: startGame_def Let_def)

lemma freshGame_frame:
  "Model.width freshGame = 80" "lastUpdate freshGame = 0" "length (obstacles freshGame) = 80"
proof -
  show "Model.width freshGame = 80"
    by (simp add: freshGame_def frog_startGame NewModel_def)
  show "lastUpdate freshGame = 0"
    by (simp add: freshGame_def lastUpdate_startGame)
  have "initLanes \<noteq> []"
    by (simp add: initLanes_eq)
  then show "length (obstacles freshGame) = 80"
    by (simp add: freshGame_def obstacles_startGame length_generateObstacles)
qed

text \<open>
  Claim C9, as stated, bounds the horizontal position of every obstacle after a tick by
  \<open>[-(width + 5), viewport_width + 5]\<close>. The wrap tests the truncated integer position, so the
  float position can pass a margin by less than one cell: in the fresh game of 80 columns a
  tick after 437.5 ms moves obstacle 72 from 79 to 85.5625, beyond 85, and does not teleport
  it.
\<close>

theorem float_position_passes_margin_counterexample:
  "(72::nat) < length (obstacles freshGame)
   \<and> Model.width (updateGame amd64 437500000 freshGame) = 80
   \<and> obstacle.width (obstacles (updateGame amd64 437500000 freshGame) ! 72) = 1
   \<and> pos_x (pos (obstacles (updateGame amd64 437500000 freshGame) ! 72)) = 85
   \<and> floatX (obstacles (updateGame amd64 437500000 freshGame) ! 72) = 85.5625
   \<and> \<not> floatX (obstacles (updateGame amd64 437500000 freshGame) ! 72)
         \<le> of_int (Model.width (updateGame amd64 437500000 freshGame) + 5)"
proof -
  have m: "moveObstacle 80 (Seconds 437500000) (obstacles freshGame ! 72)
           = \<lparr>pos = \<lparr>pos_x = 85, pos_y = 18\<rparr>, floatX = 85.5625, obstacle.width = 1, speed = 0.5,
              cveID = ''CVE-2021-1'', severity = 0, severityLabel = ''Low''\<rparr>"
    unfolding freshGame_obstacle_72
    by (simp add: moveObstacle_def Seconds_def trunc_def Let_def)
  have "obstacles (updateGame amd64 437500000 freshGame) ! 72
        = moveObstacle 80 (Seconds 437500000) (obstacles freshGame ! 72)"
    by (simp add: obstacles_updateGame freshGame_frame)
  then show ?thesis
    unfolding m by (simp add: obstacles_updateGame freshGame_frame)
qed

text \<open>
  Claim C9, amended. After a physics step the integer position of every obstacle lies in
  \<open>[-(width + 5), viewport_width + 5]\<close> and its float position strictly between
  \<open>-(width + 6)\<close> and \<open>viewport_width + 6\<close>; the integer position is the truncation of the
  float position. The step, with or without teleport, leaves the obstacle's width, velocity
  and lane row unchanged. A teleport sets the float position to exactly the integer edge
  \<open>viewport_width + 5\<close> or \<open>-(width + 5)\<close>, whatever the position before, so wraps
  accumulate no drift.
\<close>

theorem wrap_keeps_obstacle_near_viewport:
  assumes "i < length (obstacles m)"
    and "0 \<le> Model.width m" and "0 \<le> obstacle.width (obstacles m ! i)"
  shows "- obstacle.width (obstacles m ! i) - 5 \<le> pos_x (pos (obstacles (updateGame e now m) ! i))
       \<and> pos_x (pos (obstacles (updateGame e now m) ! i)) \<le> Model.width m + 5
       \<and> - of_int (obstacle.width (obstacles m ! i)) - 6 < floatX (obstacles (updateGame e now m) ! i)
       \<and> floatX (obstacles (updateGame e now m) ! i) < of_int (Model.width m) + 6
       \<and> pos_x (pos (obstacles (updateGame e now m) ! i))
           = trunc (floatX (obstacles (updateGame e now m) ! i))
       \<and> obstacle.width (obstacles (updateGame e now m) ! i) = obstacle.width (obstacles m ! i)
       \<and> speed (obstacles (updateGame e now m) ! i) = speed (obstacles m ! i)
       \<and> pos_y (pos (obstacles (updateGame e now m) ! i)) = pos_y (pos (obstacles m ! i))
       \<and> Model.width (updateGame e now m) = Model.width m
       \<and> (wraps (Model.width m) (Seconds (now - lastUpdate m)) (obstacles m ! i) \<longrightarrow>
            floatX (obstacles (updateGame e now m) ! i)
              = of_int (pos_x (pos (obstacles (updateGame e now m) ! i)))
            \<and> (pos_x (pos (obstacles (updateGame e now m) ! i)) = Model.width m + 5
               \<or> pos_x (pos (obstacles (updateGame e now m) ! i))
                   = - obstacle.width (obstacles m ! i) - 5))"
proof -
  let ?d = "Seconds (now - lastUpdate m)"
  have n: "obstacles (updateGame e now m) ! i = moveObstacle (Model.width m) ?d (obstacles m ! i)"
    using assms(1) by (simp add: obstacles_updateGame)
  have r: "- obstacle.width (obstacles m ! i) - 5 \<le> Model.width m + 5"
    using assms(2,3) by simp
  show ?thesis
    unfolding n
  proof (intro conjI impI)
    assume "wraps (Model.width m) ?d (obstacles m ! i)"
    then show "floatX (moveObstacle (Model.width m) ?d (obstacles m ! i))
               = of_int (pos_x (pos (moveObstacle (Model.width m) ?d (obstacles m ! i))))"
      and "pos_x (pos (moveObstacle (Model.width m) ?d (obstacles m ! i))) = Model.width m + 5
           \<or> pos_x (pos (moveObstacle (Model.width m) ?d (obstacles m ! i)))
               = - obstacle.width (obstacles m ! i) - 5"
      by (rule moveObstacle_wrap)+
  qed (rule moveObstacle_int_range [OF r] moveObstacle_float_range [OF r] moveObstacle_trunc
            moveObstacle_frame obstacles_updateGame(3))+
qed

theorem wrap_keeps_obstacle_near_viewport_witness:
  "(72::nat) < length (obstacles freshGame)
   \<and> 0 \<le> Model.width freshGame
   \<and> 0 \<le> obstacle.width (obstacles freshGame ! 72)
   \<and> pos_x (pos (obstacles (updateGame amd64 437500000 freshGame) ! 72)) \<le> 85
   \<and> floatX (obstacles (updateGame amd64 437500000 freshGame) ! 72) < 86
   \<and> wraps (Model.width freshGame) (Seconds (500000000 - lastUpdate freshGame))
         (obstacles freshGame ! 72)
   \<and> floatX (obstacles (updateGame amd64 500000000 freshGame) ! 72)
       = of_int (pos_x (pos (obstacles (updateGame amd64 500000000 freshGame) ! 72)))
   \<and> speed (obstacles (updateGame amd64 500000000 freshGame) ! 72) = 0.5"
proof -
  have a: "(72::nat) < length (obstacles freshGame)" and b: "0 \<le> Model.width freshGame"
    and c: "0 \<le> obstacle.width (obstacles freshGame ! 72)"
    by (simp_all add: freshGame_frame freshGame_obstacle_72)
  have w: "Model.width freshGame = 80"
    by (rule freshGame_frame)
  have s: "speed (obstacles freshGame ! 72) = 0.5"
    by (simp add: freshGame_obstacle_72)
  have f: "wraps (Model.width freshGame) (Seconds (500000000 - lastUpdate freshGame))
             (obstacles freshGame ! 72)"
    unfolding freshGame_frame freshGame_obstacle_72
    by (simp add: wraps_def Seconds_def trunc_def)
  note t1 = wrap_keeps_obstacle_near_viewport [OF a b c, of amd64 437500000, unfolded w s]
  note t2 = wrap_keeps_obstacle_near_viewport [OF a b c, of amd64 500000000, unfolded w s]
  have p: "pos_x (pos (obstacles (updateGame amd64 437500000 freshGame) ! 72)) \<le> 85"
    using t1 by simp
  have q: "floatX (obstacles (updateGame amd64 437500000 freshGame) ! 72) < 86"
    using t1 by simp
  have r: "floatX (obstacles (updateGame amd64 500000000 freshGame) ! 72)
       = of_int (pos_x (pos (obstacles (updateGame amd64 500000000 freshGame) ! 72)))"
    using t2 f [unfolded w] by blast
  have v: "speed (obstacles (updateGame amd64 500000000 freshGame) ! 72) = 0.5"
    using t2 by blast
  from a b c p q f r v show ?thesis
    by blast
qed

subsection \<open>The loop wrap below the lane count\<close>

text \<open>
  With at least as many vulnerabilities as lanes the loop length is positive and the wrap
  puts the position into the loop; with fewer the loop length is zero and the wrap is NaN.
\<close>

lemma math_Mod_range:
  assumes "0 < b"
  shows "\<exists>r. math_Mod a b = Some r \<and> - b < r \<and> r < b"
proof -
  let ?q = "a / b"
  have e: "a - b * of_int (trunc ?q) = b * (?q - of_int (trunc ?q))"
    using assms by (simp add: algebra_simps)
  have "- 1 < ?q - of_int (trunc ?q)" and "?q - of_int (trunc ?q) < 1"
    using trunc_close [of ?q] by simp_all
  then have "- b < b * (?q - of_int (trunc ?q))" and "b * (?q - of_int (trunc ?q)) < b"
    using assms by (simp_all add: mult_less_cancel_left_pos [of b _ 1, simplified]
        mult_less_cancel_left_pos [of b "- 1", simplified])
  then show ?thesis
    using assms by (simp add: math_Mod_def e)
qed

lemma loopLength_pos:
  assumes "0 < numLanes" and "numLanes \<le> n"
  shows "0 < loopLength n numLanes"
proof -
  have "0 < n div numLanes"
    using assms by (simp add: div_greater_zero_iff)
  then show ?thesis
    by (simp add: loopLength_def spacing_def)
qed

lemma wrappedX_in_loop:
  assumes "0 < numLanes" and "numLanes \<le> n"
  shows "\<exists>x. wrappedX n numLanes i = Some x \<and> 0 \<le> x \<and> x < loopLength n numLanes"
proof -
  let ?x0 = "real (i div numLanes) * spacing n + real (i mod numLanes) * 2.0
             + of_int (int (i mod 7) - 3) * 0.5"
  obtain r where r: "math_Mod ?x0 (loopLength n numLanes) = Some r"
    and b: "- loopLength n numLanes < r" "r < loopLength n numLanes"
    using math_Mod_range [OF loopLength_pos [OF assms]] by blast
  show ?thesis
    using r b by (auto simp: wrappedX_def Let_def)
qed

lemma wrappedX_NaN:
  assumes "n < numLanes"
  shows "wrappedX n numLanes i = None"
  using assms by (simp add: wrappedX_def loopLength_def math_Mod_def Let_def)

text \<open>
  Claim C1 fails on the input of \<^verbatim>\<open>TestDeltaTimePhysics\<close>: one vulnerability on the eight
  lanes of \<^verbatim>\<open>startGame\<close>. The loop length is \<open>float64(1/8) * 20 = 0\<close>, the wrap
  \<^verbatim>\<open>math.Mod(x, 0)\<close> is NaN, and the start position of the obstacle is whatever the
  platform converts NaN to.
\<close>

theorem loop_wrap_NaN_below_lane_count:
  "loopLength 1 (length initLanes) = 0
   \<and> wrappedX 1 (length initLanes) 0 = None
   \<and> map (\<lambda>ob. pos_x (pos ob)) (obstacles (startGame e now m [vulnOf 5.0 ''Medium'']))
       = [nanInt e]"
proof -
  let ?M = "m\<lparr>lanes := initLanes\<rparr>"
  have x: "wrappedX 1 (length initLanes) 0 = None"
    by (rule wrappedX_NaN) (simp add: length_initLanes)
  have l: "loopLength 1 (length initLanes) = 0"
    by (simp add: loopLength_def length_initLanes)
  have ln: "lanes ?M ! (0 mod length (lanes ?M)) = \<lparr>lane_y = 18, direction = 1, lane_speed = 0.5\<rparr>"
    by (simp add: initLanes_eq)
  have "pos_x (pos (newObstacle e ?M 1 0 (vulnOf 5.0 ''Medium''))) = nanInt e"
    unfolding newObstacle_def Let_def ln
    by (simp add: x [unfolded One_nat_def] l [unfolded One_nat_def] toInt_def trunc_def
          signed_divide_int_def split: prod.splits)
  moreover have "obstacles (startGame e now m [vulnOf 5.0 ''Medium''])
        = [newObstacle e ?M 1 0 (vulnOf 5.0 ''Medium'')]"
    by (simp add: obstacles_startGame generateObstacles_def initLanes_eq)
  ultimately show ?thesis
    using x l by simp
qed

end
